theory Spec2Isabelle
  imports Main "HOL-Library.AList"
begin

section \<open>Shared request data\<close>

text \<open>
  Optional JSON fields are \<open>option\<close> values. JavaScript treats both a missing string and
  the empty string as falsy; \<open>truthy\<close> is that test.
\<close>

record HealthcareContext =
  nphiesId :: "string option"
  facilityCode :: "string option"
  practitionerId :: "string option"

record NationalContext =
  sudanNationalId :: "string option"
  ministryCode :: "string option"
  wilayaCode :: "string option"

definition truthy :: "string option \<Rightarrow> bool" where
  "truthy x = (case x of None \<Rightarrow> False | Some v \<Rightarrow> v \<noteq> [])"

text \<open>\<^verbatim>\<open>x || d\<close> on an optional string.\<close>

definition orElse :: "string option \<Rightarrow> string \<Rightarrow> string" where
  "orElse x d = (case x of None \<Rightarrow> d | Some v \<Rightarrow> if v = [] then d else v)"

text \<open>A number inside a template literal: its decimal digits, with a sign when negative.\<close>

function natToString :: "nat \<Rightarrow> string" where
  "natToString n =
     (if n < 10 then [''0123456789'' ! n]
      else natToString (n div 10) @ [''0123456789'' ! (n mod 10)])"
  by pat_completeness auto
termination
  by (relation "measure id") auto

declare natToString.simps [simp del]

definition numberToString :: "int \<Rightarrow> string" where
  "numberToString i = (if i < 0 then CHR ''-'' # natToString (nat (- i)) else natToString (nat i))"

section \<open>Risk scorer: \<^verbatim>\<open>src/services/security.ts\<close>\<close>

text \<open>
  The class \<^verbatim>\<open>BrainSAITSecurityService\<close> keeps a map from session keys to
  \<^verbatim>\<open>SecurityMetrics\<close>, reads the device fingerprint from the browser's session
  storage and appends high-risk incidents to local storage. Numbers are JavaScript
  numbers holding small integers and millisecond clock readings, modelled as \<open>int\<close>.
\<close>

record SecurityConfig =
  enableAdvancedFraudDetection :: bool
  enableRealTimeValidation :: bool
  enableCSP :: bool
  maxVerificationAttempts :: int
  sessionTimeout :: int

record SecurityMetrics =
  verificationAttempts :: int
  lastAttemptTimestamp :: int
  suspiciousActivityScore :: int
  deviceFingerprint :: "string option"
  ipAddress :: "string option"
  userAgent :: "string option"

text \<open>
  What one call reads from the browser: the clock (\<^verbatim>\<open>Date.now()\<close>), the
  \<^verbatim>\<open>navigator\<close> and \<^verbatim>\<open>window\<close> properties the detectors look at, and the string
  \<^verbatim>\<open>generateDeviceFingerprint\<close> would return if it were called (a hash of canvas, screen
  and clock data, opaque here).
\<close>

record Browser =
  dateNow :: int
  navWebdriver :: bool
  windowProps :: "string list"
  pluginsLength :: nat
  languagesLength :: nat
  navUserAgent :: string
  generatedFingerprint :: string

record UserContext =
  ctxType :: string
  ctxCountryCode :: "string option"
  ctxHealthcareContext :: "HealthcareContext option"
  ctxNationalIdContext :: "NationalContext option"

record SecurityIncident =
  incidentType :: string
  incidentSession :: string
  incidentRisk :: int
  incidentAttempts :: int

text \<open>
  The service object together with the two browser stores it writes: the
  \<^verbatim>\<open>brainsait_device_fp\<close> entry of session storage and the incident list of local
  storage.
\<close>

record SecurityService =
  securityMetrics :: "string \<rightharpoonup> SecurityMetrics"
  config :: SecurityConfig
  deviceFingerprintingActive :: bool
  storedFingerprint :: "string option"
  storedIncidents :: "SecurityIncident list"

record SecurityResult =
  isValid :: bool
  riskScore :: int
  blockedReason :: "string option"

text \<open>The constructor: the three switches come from the build environment, the limits are fixed.\<close>

definition newConfig :: "bool \<Rightarrow> bool \<Rightarrow> bool \<Rightarrow> SecurityConfig" where
  "newConfig fraud realtime csp =
     \<lparr>enableAdvancedFraudDetection = fraud, enableRealTimeValidation = realtime,
      enableCSP = csp, maxVerificationAttempts = 3, sessionTimeout = 30 * 60 * 1000\<rparr>"

definition initializeDeviceFingerprinting :: "Browser \<Rightarrow> SecurityService \<Rightarrow> string \<times> SecurityService" where
  "initializeDeviceFingerprinting b s =
     (let fingerprint = generatedFingerprint b
      in (fingerprint, s\<lparr>storedFingerprint := Some fingerprint, deviceFingerprintingActive := True\<rparr>))"

definition newService :: "bool \<Rightarrow> bool \<Rightarrow> bool \<Rightarrow> Browser \<Rightarrow> string option \<Rightarrow> SecurityIncident list \<Rightarrow> SecurityService" where
  "newService fraud realtime csp b fp incs =
     (let s = \<lparr>securityMetrics = Map.empty, config = newConfig fraud realtime csp,
                deviceFingerprintingActive = False, storedFingerprint = fp, storedIncidents = incs\<rparr>
      in if fraud then snd (initializeDeviceFingerprinting b s) else s)"

text \<open>\<^verbatim>\<open>/HeadlessChrome/.test(s)\<close>: the pattern occurs somewhere in the string.\<close>

fun occursIn :: "string \<Rightarrow> string \<Rightarrow> bool" where
  "occursIn pat [] = (pat = [])"
| "occursIn pat (c # cs) = (take (length pat) (c # cs) = pat \<or> occursIn pat cs)"

definition detectHeadlessBrowser :: "Browser \<Rightarrow> bool" where
  "detectHeadlessBrowser b =
     (navWebdriver b \<or> ''PhantomJS'' \<in> set (windowProps b) \<or> ''_phantom'' \<in> set (windowProps b) \<or>
      ''_selenium'' \<in> set (windowProps b) \<or> ''__nightmare'' \<in> set (windowProps b))"

definition detectAutomationTools :: "Browser \<Rightarrow> bool" where
  "detectAutomationTools b =
     (pluginsLength b = 0 \<or> languagesLength b = 0 \<or> occursIn ''HeadlessChrome'' (navUserAgent b))"

text \<open>Both of these are placeholders in the source and return \<^verbatim>\<open>false\<close>.\<close>

definition detectLocationMismatch :: "string \<Rightarrow> string option \<Rightarrow> bool" where
  "detectLocationMismatch countryCode ip = False"

definition detectVPNUsage :: "string option \<Rightarrow> bool" where
  "detectVPNUsage ip = False"

definition getUserIP :: string where
  "getUserIP = ''client-side-detection''"

definition performAdvancedFraudChecks :: "Browser \<Rightarrow> UserContext \<Rightarrow> SecurityMetrics \<Rightarrow> int" where
  "performAdvancedFraudChecks b userContext metrics =
     (let fraudScore = 0;
          fraudScore = (if detectHeadlessBrowser b then fraudScore + 60 else fraudScore);
          fraudScore = (if detectAutomationTools b then fraudScore + 50 else fraudScore);
          fraudScore = (if (case ctxCountryCode userContext of
                              None \<Rightarrow> False
                            | Some cc \<Rightarrow> cc \<noteq> [] \<and> detectLocationMismatch cc (ipAddress metrics))
                        then fraudScore + 20 else fraudScore);
          fraudScore = (if detectVPNUsage (ipAddress metrics) then fraudScore + 25 else fraudScore)
      in min fraudScore 100)"

definition getRiskReason :: "int \<Rightarrow> string" where
  "getRiskReason score =
     (if score \<ge> 90 then ''High fraud risk detected''
      else if score \<ge> 70 then ''Suspicious activity patterns''
      else if score \<ge> 50 then ''Multiple failed attempts''
      else ''Security threshold exceeded'')"

text \<open>
  \<^verbatim>\<open>reportSecurityIncident\<close> appends to the stored list and keeps its last 100 entries.
\<close>

definition reportSecurityIncident :: "SecurityIncident \<Rightarrow> SecurityService \<Rightarrow> SecurityService" where
  "reportSecurityIncident incident s =
     (let incidents = storedIncidents s @ [incident];
          incidents = (if length incidents > 100 then drop (length incidents - 100) incidents
                       else incidents)
      in s\<lparr>storedIncidents := incidents\<rparr>)"

definition logSecurityEvent :: "string \<Rightarrow> SecurityResult \<Rightarrow> SecurityMetrics \<Rightarrow> SecurityService \<Rightarrow> SecurityService" where
  "logSecurityEvent sessionId result metrics s =
     (if riskScore result > 50
      then reportSecurityIncident
             \<lparr>incidentType = ''high_risk_verification'', incidentSession = sessionId,
              incidentRisk = riskScore result, incidentAttempts = verificationAttempts metrics\<rparr> s
      else s)"

text \<open>
  \<^verbatim>\<open>sessionStorage.getItem('brainsait_device_fp') || this.initializeDeviceFingerprinting()\<close>:
  a missing or empty entry is falsy and a new fingerprint is generated and stored.
\<close>

definition currentFingerprint :: "Browser \<Rightarrow> SecurityService \<Rightarrow> string \<times> SecurityService" where
  "currentFingerprint b s =
     (case storedFingerprint s of
        None \<Rightarrow> initializeDeviceFingerprinting b s
      | Some fp \<Rightarrow> if fp \<noteq> [] then (fp, s) else initializeDeviceFingerprinting b s)"

text \<open>
  The body of \<^verbatim>\<open>validateVerificationRequest\<close>, statement by statement. The metrics
  record is updated (attempt count, then \<^verbatim>\<open>lastAttemptTimestamp = currentTime\<close>) before
  the score is computed from it, as in the source.
\<close>

definition validateVerificationRequest ::
  "Browser \<Rightarrow> string \<Rightarrow> UserContext \<Rightarrow> SecurityService \<Rightarrow> SecurityResult \<times> SecurityService" where
  "validateVerificationRequest b sessionId userContext s0 =
     (let (fingerprint, s) = currentFingerprint b s0;
          currentTime = dateNow b;
          metrics = (case securityMetrics s sessionId of
                       Some m \<Rightarrow> m
                     | None \<Rightarrow> \<lparr>verificationAttempts = 0, lastAttemptTimestamp = 0,
                                suspiciousActivityScore = 0, deviceFingerprint = Some fingerprint,
                                ipAddress = Some getUserIP, userAgent = Some (navUserAgent b)\<rparr>);
          metrics = metrics\<lparr>verificationAttempts := verificationAttempts metrics + 1\<rparr>;
          metrics = metrics\<lparr>lastAttemptTimestamp := currentTime\<rparr>;
          score = 0;
          score = (if verificationAttempts metrics > maxVerificationAttempts (config s)
                   then score + 50 else score);
          score = (if currentTime - lastAttemptTimestamp metrics < 5000 then score + 30 else score);
          score = (if deviceFingerprint metrics \<noteq> Some fingerprint then score + 40 else score);
          score = (if enableAdvancedFraudDetection (config s)
                   then score + performAdvancedFraudChecks b userContext metrics else score);
          metrics = metrics\<lparr>suspiciousActivityScore := score\<rparr>;
          s = s\<lparr>securityMetrics := (securityMetrics s)(sessionId \<mapsto> metrics)\<rparr>;
          valid = score < 70;
          result = \<lparr>isValid = valid, riskScore = score,
                    blockedReason = (if valid then None else Some (getRiskReason score))\<rparr>
      in (result, logSecurityEvent sessionId result metrics s))"

text \<open>Calling the scorer once per browser reading, oldest first, for one session key.\<close>

fun validateRepeatedly ::
  "Browser list \<Rightarrow> string \<Rightarrow> UserContext \<Rightarrow> SecurityService \<Rightarrow> SecurityResult list \<times> SecurityService" where
  "validateRepeatedly [] sessionId userContext s = ([], s)"
| "validateRepeatedly (b # bs) sessionId userContext s =
     (let (r, s') = validateVerificationRequest b sessionId userContext s;
          (rs, s'') = validateRepeatedly bs sessionId userContext s'
      in (r # rs, s''))"

section \<open>Session creation endpoint: \<^verbatim>\<open>functions/api/create-verification-session.ts\<close>\<close>

text \<open>
  The handler talks to four collaborators: the D1 database (two reference tables it reads
  and the \<^verbatim>\<open>verification_sessions\<close> table it inserts into), the identity provider
  (one HTTP call), and two KV namespaces. Each call either completes or throws; what
  happens is fixed by the environment record, and every effect that took place before
  an exception stays in the returned state.
\<close>

record VerificationRequest =
  req_type :: string
  return_url :: string
  req_metadata :: "(string \<times> string) list option"
  country_code :: "string option"
  healthcare_context :: "HealthcareContext option"
  national_context :: "NationalContext option"

record FacilityRow =
  facility_code :: string
  facility_is_active :: int
  nphies_certified :: int

record WilayaRow =
  wilaya_code :: string
  wilaya_is_active :: int

record SessionData =
  data_type :: string
  data_return_url :: string
  data_healthcare_context :: "HealthcareContext option"
  data_national_context :: "NationalContext option"
  data_metadata :: "(string \<times> string) list option"

record SessionRow =
  session_oid :: string
  stripe_session_id :: string
  session_status :: string
  country_context :: string
  session_data :: SessionData

record KvSession =
  kv_session_oid :: string
  kv_created_at :: string
  kv_country_code :: "string option"
  kv_type :: string

record NeuralContext =
  nc_session_oid :: string
  nc_stripe_session_id :: string
  nc_country_context :: "string option"
  nc_verification_type :: string
  nc_real_time_sync :: bool
  nc_obsidian_integration :: bool
  nc_regional_integration :: bool
  nc_created_at :: string

record StripeSession =
  stripe_id :: string
  stripe_fields :: "(string \<times> string) list"

text \<open>
  What the provider call does: the \<^verbatim>\<open>fetch\<close> rejects; the response is not \<^verbatim>\<open>ok\<close>
  and carries a status and a body text; it is not \<^verbatim>\<open>ok\<close> and reading its text
  throws; it is \<^verbatim>\<open>ok\<close> but its body is not JSON; or it is \<^verbatim>\<open>ok\<close> and carries
  the new session.
\<close>

datatype StripeOutcome =
    StripeRejected string
  | StripeNotOk int string
  | StripeNotOkUnreadable string
  | StripeInvalidJson string
  | StripeOk StripeSession

datatype ResponseBody =
    ErrorBody string
  | StripeErrorBody string
  | InternalErrorBody string
  | CreatedBody StripeSession string bool bool

record Response =
  resp_status :: int
  resp_body :: ResponseBody

text \<open>
  \<open>selectError\<close>, \<open>insertError\<close>, \<open>sessionsPutError\<close> and \<open>neuralPutError\<close> are
  \<open>Some msg\<close> when the corresponding call throws an error with that message.
\<close>

record ServerEnv =
  BRAINSAIT_OID_ROOT :: string
  VITE_STRIPE_SECRET_KEY :: string
  serverNow :: int
  serverIsoNow :: string
  selectError :: "string option"
  stripeOutcome :: StripeOutcome
  insertError :: "string option"
  sessionsPutError :: "string option"
  neuralPutError :: "string option"

text \<open>
  \<open>stripeRequests\<close> is the list of form bodies sent to the provider's session-creation
  URL, oldest first; it is not a store of the program but records that the call was made.
\<close>

record ServerState =
  healthcare_facilities :: "FacilityRow list"
  sudan_wilayas :: "WilayaRow list"
  verification_sessions :: "SessionRow list"
  SESSIONS :: "string \<rightharpoonup> KvSession"
  NEURAL_CONTEXT :: "string \<rightharpoonup> NeuralContext"
  stripeRequests :: "(string \<times> string) list list"

definition countryOid :: "string option \<Rightarrow> string" where
  "countryOid cc = (if cc = Some ''SA'' then ''682'' else if cc = Some ''SD'' then ''729'' else ''840'')"

definition makeSessionOID :: "ServerEnv \<Rightarrow> VerificationRequest \<Rightarrow> string" where
  "makeSessionOID env body =
     (let timestamp = serverNow env
      in BRAINSAIT_OID_ROOT env @ ''.1.'' @ countryOid (country_code body) @ ''.'' @ numberToString timestamp)"

definition validateSaudiFacility :: "ServerEnv \<Rightarrow> ServerState \<Rightarrow> string option \<Rightarrow> string + bool" where
  "validateSaudiFacility env s code =
     (if \<not> truthy code then Inr True
      else case selectError env of
             Some e \<Rightarrow> Inl e
           | None \<Rightarrow>
               Inr (find (\<lambda>r. Some (facility_code r) = code \<and> facility_is_active r = 1 \<and> nphies_certified r = 1)
                      (healthcare_facilities s) \<noteq> None))"

definition validateSudanWilaya :: "ServerEnv \<Rightarrow> ServerState \<Rightarrow> string option \<Rightarrow> string + bool" where
  "validateSudanWilaya env s code =
     (if \<not> truthy code then Inr True
      else case selectError env of
             Some e \<Rightarrow> Inl e
           | None \<Rightarrow>
               Inr (find (\<lambda>r. Some (wilaya_code r) = code \<and> wilaya_is_active r = 1) (sudan_wilayas s) \<noteq> None))"

definition internalServerError :: "string \<Rightarrow> Response" where
  "internalServerError msg = \<lparr>resp_status = 500, resp_body = InternalErrorBody msg\<rparr>"

definition badRequest :: "string \<Rightarrow> Response" where
  "badRequest msg = \<lparr>resp_status = 400, resp_body = ErrorBody msg\<rparr>"

text \<open>
  The two regional checks of the handler. \<open>Inl\<close> is an exception on its way to the
  handler's \<^verbatim>\<open>catch\<close>, \<open>Inr (Some r)\<close> an early \<^verbatim>\<open>return\<close> of response \<open>r\<close>,
  \<open>Inr None\<close> falls through to the provider call.
\<close>

definition checkSaudi :: "ServerEnv \<Rightarrow> VerificationRequest \<Rightarrow> ServerState \<Rightarrow> string + Response option" where
  "checkSaudi env body s =
     (if country_code body = Some ''SA''
      then case healthcare_context body of
             None \<Rightarrow> Inr None
           | Some hc \<Rightarrow>
               (case validateSaudiFacility env s (facilityCode hc) of
                  Inl e \<Rightarrow> Inl e
                | Inr facilityValid \<Rightarrow>
                    if \<not> facilityValid then Inr (Some (badRequest ''Invalid Saudi healthcare facility''))
                    else Inr None)
      else Inr None)"

definition checkSudan :: "ServerEnv \<Rightarrow> VerificationRequest \<Rightarrow> ServerState \<Rightarrow> string + Response option" where
  "checkSudan env body s =
     (if country_code body = Some ''SD''
      then case national_context body of
             None \<Rightarrow> Inr None
           | Some nc \<Rightarrow>
               (case validateSudanWilaya env s (wilayaCode nc) of
                  Inl e \<Rightarrow> Inl e
                | Inr wilayaValid \<Rightarrow>
                    if \<not> wilayaValid then Inr (Some (badRequest ''Invalid Sudan wilaya''))
                    else Inr None)
      else Inr None)"

text \<open>
  The form body of the provider call. The object spread of the caller's metadata
  overwrites an earlier key of the same name and appends a new one, as
  \<open>AList.update\<close> does.
\<close>

definition stripeParams :: "VerificationRequest \<Rightarrow> string \<Rightarrow> (string \<times> string) list" where
  "stripeParams body sessionOID =
     fold (\<lambda>(k, v). AList.update (''metadata['' @ k @ '']'') v)
       (case req_metadata body of None \<Rightarrow> [] | Some md \<Rightarrow> md)
       [(''type'', req_type body),
        (''return_url'', return_url body),
        (''metadata[brainsait_oid]'', sessionOID),
        (''metadata[country_code]'', orElse (country_code body) ''US''),
        (''metadata[neural_integration]'', ''enabled'')]"

text \<open>
  The insert into \<^verbatim>\<open>verification_sessions\<close>. The schema declares \<^verbatim>\<open>session_oid\<close> and
  \<^verbatim>\<open>stripe_session_id\<close> \<^verbatim>\<open>UNIQUE\<close>, so the statement also throws on a duplicate.
\<close>

definition insertSession :: "ServerEnv \<Rightarrow> SessionRow \<Rightarrow> ServerState \<Rightarrow> string + ServerState" where
  "insertSession env row s =
     (case insertError env of
        Some e \<Rightarrow> Inl e
      | None \<Rightarrow>
          if list_ex (\<lambda>r. session_oid r = session_oid row) (verification_sessions s)
          then Inl ''UNIQUE constraint failed: verification_sessions.session_oid''
          else if list_ex (\<lambda>r. stripe_session_id r = stripe_session_id row) (verification_sessions s)
          then Inl ''UNIQUE constraint failed: verification_sessions.stripe_session_id''
          else Inr (s\<lparr>verification_sessions := verification_sessions s @ [row]\<rparr>))"

definition putSession :: "ServerEnv \<Rightarrow> string \<Rightarrow> KvSession \<Rightarrow> ServerState \<Rightarrow> string + ServerState" where
  "putSession env key v s =
     (case sessionsPutError env of
        Some e \<Rightarrow> Inl e
      | None \<Rightarrow> Inr (s\<lparr>SESSIONS := (SESSIONS s)(key \<mapsto> v)\<rparr>))"

definition putNeuralContext :: "ServerEnv \<Rightarrow> string \<Rightarrow> NeuralContext \<Rightarrow> ServerState \<Rightarrow> string + ServerState" where
  "putNeuralContext env key v s =
     (case neuralPutError env of
        Some e \<Rightarrow> Inl e
      | None \<Rightarrow> Inr (s\<lparr>NEURAL_CONTEXT := (NEURAL_CONTEXT s)(key \<mapsto> v)\<rparr>))"

definition neuralEnabled :: "VerificationRequest \<Rightarrow> bool" where
  "neuralEnabled body =
     (case req_metadata body of
        None \<Rightarrow> False
      | Some md \<Rightarrow> map_of md ''neural_integration'' = Some ''enabled'')"

text \<open>
  The part of the handler after a successful provider call: the D1 insert, then the
  \<^verbatim>\<open>SESSIONS\<close> entry, then the optional neural context, then the 200 response.
\<close>

definition storeSession ::
  "ServerEnv \<Rightarrow> VerificationRequest \<Rightarrow> string \<Rightarrow> StripeSession \<Rightarrow> ServerState \<Rightarrow> Response \<times> ServerState" where
  "storeSession env body sessionOID stripeSession s =
     (case insertSession env
             \<lparr>session_oid = sessionOID, stripe_session_id = stripe_id stripeSession,
              session_status = ''created'',
              country_context = orElse (country_code body) ''US'',
              session_data = \<lparr>data_type = req_type body, data_return_url = return_url body,
                              data_healthcare_context = healthcare_context body,
                              data_national_context = national_context body,
                              data_metadata = req_metadata body\<rparr>\<rparr> s of
        Inl e \<Rightarrow> (internalServerError e, s)
      | Inr s1 \<Rightarrow>
          (case putSession env (stripe_id stripeSession)
                  \<lparr>kv_session_oid = sessionOID, kv_created_at = serverIsoNow env,
                   kv_country_code = country_code body, kv_type = req_type body\<rparr> s1 of
             Inl e \<Rightarrow> (internalServerError e, s1)
           | Inr s2 \<Rightarrow>
               (case (if neuralEnabled body
                      then putNeuralContext env sessionOID
                             \<lparr>nc_session_oid = sessionOID, nc_stripe_session_id = stripe_id stripeSession,
                              nc_country_context = country_code body, nc_verification_type = req_type body,
                              nc_real_time_sync = True, nc_obsidian_integration = True,
                              nc_regional_integration = (country_code body \<noteq> Some ''US''),
                              nc_created_at = serverIsoNow env\<rparr> s2
                      else Inr s2) of
                  Inl e \<Rightarrow> (internalServerError e, s2)
                | Inr s3 \<Rightarrow>
                    (\<lparr>resp_status = 200,
                      resp_body = CreatedBody stripeSession sessionOID (neuralEnabled body)
                                    (country_code body \<noteq> Some ''US'')\<rparr>, s3))))"

text \<open>
  \<^verbatim>\<open>onRequestPost\<close>. The request body is \<open>Inl msg\<close> when \<^verbatim>\<open>request.json()\<close> throws.
\<close>

definition onRequestPost :: "ServerEnv \<Rightarrow> string + VerificationRequest \<Rightarrow> ServerState \<Rightarrow> Response \<times> ServerState" where
  "onRequestPost env request s =
     (case request of
        Inl e \<Rightarrow> (internalServerError e, s)
      | Inr body \<Rightarrow>
          (let sessionOID = makeSessionOID env body
           in case checkSaudi env body s of
                Inl e \<Rightarrow> (internalServerError e, s)
              | Inr (Some r) \<Rightarrow> (r, s)
              | Inr None \<Rightarrow>
                  (case checkSudan env body s of
                     Inl e \<Rightarrow> (internalServerError e, s)
                   | Inr (Some r) \<Rightarrow> (r, s)
                   | Inr None \<Rightarrow>
                       (let s1 = s\<lparr>stripeRequests := stripeRequests s @ [stripeParams body sessionOID]\<rparr>
                        in case stripeOutcome env of
                             StripeRejected e \<Rightarrow> (internalServerError e, s1)
                           | StripeNotOk code details \<Rightarrow>
                               (\<lparr>resp_status = code, resp_body = StripeErrorBody details\<rparr>, s1)
                           | StripeNotOkUnreadable e \<Rightarrow> (internalServerError e, s1)
                           | StripeInvalidJson e \<Rightarrow> (internalServerError e, s1)
                           | StripeOk stripeSession \<Rightarrow> storeSession env body sessionOID stripeSession s1))))"

section \<open>Client service: \<^verbatim>\<open>src/services/stripe.ts\<close>\<close>

text \<open>
  \<^verbatim>\<open>StripeIdentityService.createVerificationSession\<close> runs the risk scorer, the
  regional pre-checks, the call to the session creation endpoint and the neural sync.
  A \<^verbatim>\<open>fetch\<close> either rejects with a message or resolves to a response with its
  \<^verbatim>\<open>ok\<close> flag and status text. \<open>sentRequests\<close> lists the calls made and
  \<open>consoleLog\<close> the warnings and errors written to the console, both oldest first.
\<close>

datatype OidType = Verification | Healthcare | National

datatype FetchOutcome = Rejected string | Responded bool string

datatype ApiOutcome = ApiRejected string | ApiResponded bool string "string + (string \<times> string) list"

record CreateOptions =
  opt_type :: string
  returnUrl :: string
  opt_metadata :: "(string \<times> string) list option"
  countryCode :: "string option"
  healthcareContext :: "HealthcareContext option"
  nationalIdContext :: "NationalContext option"

record NeuralSyncData =
  sync_sessionId :: "string option"
  sync_oid :: string
  sync_type :: string
  sync_countryCode :: "string option"
  sync_timestamp :: string

datatype NetRequest =
    NphiesValidate HealthcareContext
  | SudanNidValidate NationalContext
  | CreateSession string CreateOptions
  | NeuralSync NeuralSyncData

record ClientEnv =
  neuralSyncEndpoint :: "string option"
  nphiesEndpoint :: "string option"
  sudanNidEndpoint :: "string option"
  oidNow :: int
  clientIsoNow :: string
  browser :: Browser
  nphiesFetch :: FetchOutcome
  sudanNidFetch :: FetchOutcome
  apiFetch :: ApiOutcome
  neuralFetch :: FetchOutcome

record ClientState =
  securityService :: SecurityService
  sentRequests :: "NetRequest list"
  consoleLog :: "string list"

definition oidPrefix :: string where
  "oidPrefix = ''1.3.6.1.4.1.61026''"

definition generateOID :: "ClientEnv \<Rightarrow> OidType \<Rightarrow> string option \<Rightarrow> string" where
  "generateOID env type cc =
     (let timestamp = oidNow env;
          typeId = (case type of Verification \<Rightarrow> ''1'' | Healthcare \<Rightarrow> ''2'' | National \<Rightarrow> ''3'');
          country = (if cc = Some ''SA'' then ''682'' else if cc = Some ''SD'' then ''729'' else ''000'')
      in oidPrefix @ ''.'' @ typeId @ ''.'' @ country @ ''.'' @ numberToString timestamp)"

definition send :: "NetRequest \<Rightarrow> ClientState \<Rightarrow> ClientState" where
  "send r st = st\<lparr>sentRequests := sentRequests st @ [r]\<rparr>"

definition console :: "string \<Rightarrow> ClientState \<Rightarrow> ClientState" where
  "console line st = st\<lparr>consoleLog := consoleLog st @ [line]\<rparr>"

text \<open>
  The two regional pre-checks return nothing and never throw: the \<^verbatim>\<open>catch\<close> inside
  each turns a rejected call and a response that is not \<^verbatim>\<open>ok\<close> into a console warning.
\<close>

definition validateNPHIESContext :: "ClientEnv \<Rightarrow> HealthcareContext \<Rightarrow> ClientState \<Rightarrow> ClientState" where
  "validateNPHIESContext env context st =
     (if \<not> truthy (nphiesEndpoint env) \<or> \<not> truthy (nphiesId context) then st
      else case nphiesFetch env of
             Rejected e \<Rightarrow> console (''NPHIES validation warning: '' @ e) (send (NphiesValidate context) st)
           | Responded ok statusText \<Rightarrow>
               if \<not> ok
               then console (''NPHIES validation warning: NPHIES validation failed: '' @ statusText)
                      (send (NphiesValidate context) st)
               else send (NphiesValidate context) st)"

definition validateSudanNIDContext :: "ClientEnv \<Rightarrow> NationalContext \<Rightarrow> ClientState \<Rightarrow> ClientState" where
  "validateSudanNIDContext env context st =
     (if \<not> truthy (sudanNidEndpoint env) \<or> \<not> truthy (sudanNationalId context) then st
      else case sudanNidFetch env of
             Rejected e \<Rightarrow> console (''Sudan NID validation warning: '' @ e) (send (SudanNidValidate context) st)
           | Responded ok statusText \<Rightarrow>
               if \<not> ok
               then console (''Sudan NID validation warning: Sudan NID validation failed: '' @ statusText)
                      (send (SudanNidValidate context) st)
               else send (SudanNidValidate context) st)"

text \<open>\<^verbatim>\<open>syncWithNeuralSystem\<close> ignores the response and catches a rejected call.\<close>

definition syncWithNeuralSystem :: "ClientEnv \<Rightarrow> NeuralSyncData \<Rightarrow> ClientState \<Rightarrow> ClientState" where
  "syncWithNeuralSystem env data st =
     (case neuralFetch env of
        Rejected e \<Rightarrow> console (''Neural sync warning: '' @ e) (send (NeuralSync data) st)
      | Responded ok statusText \<Rightarrow> send (NeuralSync data) st)"

text \<open>The outer \<^verbatim>\<open>catch\<close> of \<^verbatim>\<open>createVerificationSession\<close> logs the error and throws it again.\<close>

definition rethrow :: "string \<Rightarrow> ClientState \<Rightarrow> (string + (string \<times> string) list) \<times> ClientState" where
  "rethrow e st = (Inl e, console (''Error creating verification session: '' @ e) st)"

definition regionalPreChecks :: "ClientEnv \<Rightarrow> CreateOptions \<Rightarrow> ClientState \<Rightarrow> ClientState" where
  "regionalPreChecks env options st =
     (let st = (if countryCode options = Some ''SA''
                then case healthcareContext options of
                       None \<Rightarrow> st
                     | Some hc \<Rightarrow> validateNPHIESContext env hc st
                else st);
          st = (if countryCode options = Some ''SD''
                then case nationalIdContext options of
                       None \<Rightarrow> st
                     | Some nc \<Rightarrow> validateSudanNIDContext env nc st
                else st)
      in st)"

definition createVerificationSession ::
  "ClientEnv \<Rightarrow> CreateOptions \<Rightarrow> ClientState \<Rightarrow> (string + (string \<times> string) list) \<times> ClientState" where
  "createVerificationSession env options st0 =
     (let sessionOID = generateOID env Verification (countryCode options);
          (securityCheck, sec) =
             validateVerificationRequest (browser env) sessionOID
               \<lparr>ctxType = opt_type options, ctxCountryCode = countryCode options,
                ctxHealthcareContext = healthcareContext options,
                ctxNationalIdContext = nationalIdContext options\<rparr>
               (securityService st0);
          st = st0\<lparr>securityService := sec\<rparr>
      in if \<not> isValid securityCheck
         then rethrow (''Security validation failed: '' @
                        (case blockedReason securityCheck of None \<Rightarrow> ''undefined'' | Some r \<Rightarrow> r)) st
         else
           (let st = regionalPreChecks env options st;
                st = send (CreateSession sessionOID options) st
            in case apiFetch env of
                 ApiRejected e \<Rightarrow> rethrow e st
               | ApiResponded ok statusText json \<Rightarrow>
                   if \<not> ok then rethrow (''Failed to create verification session: '' @ statusText) st
                   else
                     (case json of
                        Inl e \<Rightarrow> rethrow e st
                      | Inr session \<Rightarrow>
                          (let st = (if truthy (neuralSyncEndpoint env)
                                     then syncWithNeuralSystem env
                                            \<lparr>sync_sessionId = map_of session ''id'', sync_oid = sessionOID,
                                             sync_type = ''verification_created'',
                                             sync_countryCode = countryCode options,
                                             sync_timestamp = clientIsoNow env\<rparr> st
                                     else st)
                           in (Inr (AList.update ''oid'' sessionOID session), st)))))"

section \<open>Example inputs and auxiliary predicates\<close>

text \<open>
  A browser without automation indicators, a headless automated one, and a service as
  the constructor leaves it with advanced fraud detection switched on. \<open>at b ms\<close> is
  the browser \<open>b\<close> read \<open>ms\<close> milliseconds later. \<open>tracked sid k f s\<close> holds when
  session storage holds the non-empty fingerprint \<open>f\<close> and the metrics of session key
  \<open>sid\<close> record \<open>k\<close> attempts made with that fingerprint.
\<close>

definition quietBrowser :: Browser where
  "quietBrowser =
     \<lparr>dateNow = 1700000000000, navWebdriver = False, windowProps = [''document'', ''navigator''],
      pluginsLength = 3, languagesLength = 2,
      navUserAgent = ''Mozilla/5.0 (X11; Linux x86_64) Chrome/120.0'',
      generatedFingerprint = ''eyJ1c2VyQWdlbnQiOiJNb3ppbGxhLzUu''\<rparr>"

definition headlessBrowser :: Browser where
  "headlessBrowser = quietBrowser\<lparr>navWebdriver := True, pluginsLength := 0\<rparr>"

definition plainContext :: UserContext where
  "plainContext =
     \<lparr>ctxType = ''document'', ctxCountryCode = Some ''SA'', ctxHealthcareContext = None,
      ctxNationalIdContext = None\<rparr>"

definition freshService :: SecurityService where
  "freshService = newService True False False quietBrowser None []"

definition at :: "Browser \<Rightarrow> int \<Rightarrow> Browser" where
  "at b ms = b\<lparr>dateNow := dateNow b + ms\<rparr>"

definition tracked :: "string \<Rightarrow> int \<Rightarrow> string \<Rightarrow> SecurityService \<Rightarrow> bool" where
  "tracked sid k f s =
     (storedFingerprint s = Some f \<and> f \<noteq> [] \<and>
      (case securityMetrics s sid of
         None \<Rightarrow> False
       | Some m \<Rightarrow> verificationAttempts m = k \<and> deviceFingerprint m = Some f))"

definition exampleMetrics :: SecurityMetrics where
  "exampleMetrics =
     \<lparr>verificationAttempts = 1, lastAttemptTimestamp = 1700000000000, suspiciousActivityScore = 30,
      deviceFingerprint = Some ''eyJ1c2VyQWdlbnQiOiJNb3ppbGxhLzUu'', ipAddress = Some ''client-side-detection'',
      userAgent = Some ''Mozilla/5.0 (X11; Linux x86_64) Chrome/120.0''\<rparr>"

text \<open>
  For the endpoint: an environment in which every collaborator answers, a second one in
  which the provider hands out another session id in the same millisecond, one in
  which the database is unreachable, a store with an active certified facility
  (\<^verbatim>\<open>KSA001\<close>), an uncertified one, an active wilaya (\<^verbatim>\<open>SD01\<close>) and an inactive one,
  and requests for either country. \<open>cacheBacked s\<close> holds when every entry of the
  \<^verbatim>\<open>SESSIONS\<close> cache has its row in \<^verbatim>\<open>verification_sessions\<close>.
\<close>

definition cacheBacked :: "ServerState \<Rightarrow> bool" where
  "cacheBacked s =
     (\<forall>k v. SESSIONS s k = Some v \<longrightarrow>
        (\<exists>r \<in> set (verification_sessions s). stripe_session_id r = k \<and> session_oid r = kv_session_oid v))"

definition serverEnv0 :: ServerEnv where
  "serverEnv0 =
     \<lparr>BRAINSAIT_OID_ROOT = ''1.3.6.1.4.1.61026'', VITE_STRIPE_SECRET_KEY = ''sk_live_example'',
      serverNow = 1700000000000, serverIsoNow = ''2023-11-14T22:13:20.000Z'',
      selectError = None, stripeOutcome = StripeOk \<lparr>stripe_id = ''vs_1'', stripe_fields = []\<rparr>,
      insertError = None, sessionsPutError = None, neuralPutError = None\<rparr>"

definition serverEnv1 :: ServerEnv where
  "serverEnv1 = serverEnv0\<lparr>stripeOutcome := StripeOk \<lparr>stripe_id = ''vs_2'', stripe_fields = []\<rparr>\<rparr>"

definition dbDown :: ServerEnv where
  "dbDown = serverEnv0\<lparr>selectError := Some ''D1_ERROR: Network connection lost.''\<rparr>"

definition store0 :: ServerState where
  "store0 =
     \<lparr>healthcare_facilities =
        [\<lparr>facility_code = ''KSA001'', facility_is_active = 1, nphies_certified = 1\<rparr>,
         \<lparr>facility_code = ''KSA009'', facility_is_active = 1, nphies_certified = 0\<rparr>],
      sudan_wilayas =
        [\<lparr>wilaya_code = ''SD01'', wilaya_is_active = 1\<rparr>,
         \<lparr>wilaya_code = ''SD02'', wilaya_is_active = 0\<rparr>],
      verification_sessions = [], SESSIONS = Map.empty, NEURAL_CONTEXT = Map.empty,
      stripeRequests = []\<rparr>"

definition saudiRequest :: "string \<Rightarrow> VerificationRequest" where
  "saudiRequest code =
     \<lparr>req_type = ''document'', return_url = ''https://example.org/return'', req_metadata = None,
      country_code = Some ''SA'',
      healthcare_context = Some \<lparr>nphiesId = Some ''NPH-1'', facilityCode = Some code, practitionerId = None\<rparr>,
      national_context = None\<rparr>"

definition otherRequest :: VerificationRequest where
  "otherRequest = (saudiRequest ''KSA001'')\<lparr>return_url := ''https://example.org/other''\<rparr>"

definition sudanRequest :: "string \<Rightarrow> VerificationRequest" where
  "sudanRequest code =
     \<lparr>req_type = ''id_number'', return_url = ''https://example.org/return'', req_metadata = None,
      country_code = Some ''SD'', healthcare_context = None,
      national_context = Some \<lparr>sudanNationalId = Some ''119900112233'', ministryCode = None, wilayaCode = Some code\<rparr>\<rparr>"

definition hc0 :: HealthcareContext where
  "hc0 = \<lparr>nphiesId = Some ''NPH-1'', facilityCode = Some ''KSA001'', practitionerId = None\<rparr>"

definition nc0 :: NationalContext where
  "nc0 = \<lparr>sudanNationalId = Some ''119900112233'', ministryCode = None, wilayaCode = Some ''SD01''\<rparr>"

definition sessionOid0 :: string where
  "sessionOid0 = ''1.3.6.1.4.1.61026.1.682.1700000000000''"

text \<open>For the client service: every call answers, and the session starts from \<open>freshService\<close>.\<close>

definition clientEnv0 :: ClientEnv where
  "clientEnv0 =
     \<lparr>neuralSyncEndpoint = Some ''https://neural.example.org/sync'',
      nphiesEndpoint = Some ''https://nphies.example.org'',
      sudanNidEndpoint = Some ''https://nid.example.org'',
      oidNow = 1700000000000, clientIsoNow = ''2023-11-14T22:13:20.000Z'', browser = quietBrowser,
      nphiesFetch = Responded True ''OK'', sudanNidFetch = Responded True ''OK'',
      apiFetch = ApiResponded True ''OK'' (Inr [(''id'', ''vs_1'')]),
      neuralFetch = Responded True ''OK''\<rparr>"

definition saudiOptions :: CreateOptions where
  "saudiOptions =
     \<lparr>opt_type = ''document'', returnUrl = ''https://example.org/return'', opt_metadata = None,
      countryCode = Some ''SA'',
      healthcareContext = Some \<lparr>nphiesId = Some ''NPH-1'', facilityCode = Some ''KSA001'', practitionerId = None\<rparr>,
      nationalIdContext = None\<rparr>"

definition client0 :: ClientState where
  "client0 = \<lparr>securityService = freshService, sentRequests = [], consoleLog = []\<rparr>"

section \<open>Properties of the risk scorer\<close>

lemma advanced_checks_value:
  "performAdvancedFraudChecks b ctx m =
     (if detectHeadlessBrowser b then (if detectAutomationTools b then 100 else 60)
      else (if detectAutomationTools b then 50 else 0))"
  by (simp add: performAdvancedFraudChecks_def detectLocationMismatch_def detectVPNUsage_def
        split: option.split)

lemma advanced_checks_range: "0 \<le> performAdvancedFraudChecks b ctx m \<and> performAdvancedFraudChecks b ctx m \<le> 100"
  by (simp add: advanced_checks_value)

lemma currentFingerprint_cases:
  "currentFingerprint b s =
     (if truthy (storedFingerprint s) then (the (storedFingerprint s), s)
      else (generatedFingerprint b, s\<lparr>storedFingerprint := Some (generatedFingerprint b), deviceFingerprintingActive := True\<rparr>))"
  by (simp add: currentFingerprint_def truthy_def initializeDeviceFingerprinting_def Let_def split: option.split)

lemma currentFingerprint_frame:
  "securityMetrics (snd (currentFingerprint b s)) = securityMetrics s"
  "config (snd (currentFingerprint b s)) = config s"
  "storedIncidents (snd (currentFingerprint b s)) = storedIncidents s"
  "storedFingerprint (snd (currentFingerprint b s)) = Some (fst (currentFingerprint b s))"
  by (auto simp add: currentFingerprint_def truthy_def initializeDeviceFingerprinting_def Let_def split: option.split)

lemma adv_indep: "performAdvancedFraudChecks b ctx m = performAdvancedFraudChecks b ctx' m'"
  by (simp add: advanced_checks_value)

lemma logSecurityEvent_frame:
  "securityMetrics (logSecurityEvent sid r m s) = securityMetrics s"
  "config (logSecurityEvent sid r m s) = config s"
  "storedFingerprint (logSecurityEvent sid r m s) = storedFingerprint s"
  by (simp_all add: logSecurityEvent_def reportSecurityIncident_def Let_def)

lemma vvr_riskScore:
  "riskScore (fst (validateVerificationRequest b sid ctx s)) =
     (if (case securityMetrics s sid of None \<Rightarrow> 0 | Some m \<Rightarrow> verificationAttempts m) + 1 > maxVerificationAttempts (config s) then 50 else 0)
     + 30
     + (if (case securityMetrics s sid of None \<Rightarrow> False | Some m \<Rightarrow> deviceFingerprint m \<noteq> Some (fst (currentFingerprint b s))) then 40 else 0)
     + (if enableAdvancedFraudDetection (config s)
        then performAdvancedFraudChecks b ctx m0 else 0)"
  by (cases "currentFingerprint b s")
     (use currentFingerprint_frame[of b s] in
       \<open>auto simp add: validateVerificationRequest_def Let_def advanced_checks_value split: option.split\<close>)

lemma vvr_result:
  "fst (validateVerificationRequest b sid ctx s) =
     (let score = riskScore (fst (validateVerificationRequest b sid ctx s))
      in \<lparr>isValid = score < 70, riskScore = score,
          blockedReason = (if score < 70 then None else Some (getRiskReason score))\<rparr>)"
  by (cases "currentFingerprint b s")
     (simp add: validateVerificationRequest_def Let_def)

lemma vvr_state:
  "config (snd (validateVerificationRequest b sid ctx s)) = config s"
  "storedFingerprint (snd (validateVerificationRequest b sid ctx s)) = Some (fst (currentFingerprint b s))"
  "\<exists>m'. securityMetrics (snd (validateVerificationRequest b sid ctx s)) sid = Some m' \<and>
        verificationAttempts m' = (case securityMetrics s sid of None \<Rightarrow> 0 | Some m \<Rightarrow> verificationAttempts m) + 1 \<and>
        deviceFingerprint m' = (case securityMetrics s sid of None \<Rightarrow> Some (fst (currentFingerprint b s)) | Some m \<Rightarrow> deviceFingerprint m)"
  "k \<noteq> sid \<Longrightarrow> securityMetrics (snd (validateVerificationRequest b sid ctx s)) k = securityMetrics s k"
  by (cases "currentFingerprint b s";
      use currentFingerprint_frame[of b s] in
       \<open>auto simp add: validateVerificationRequest_def Let_def logSecurityEvent_frame split: option.split\<close>)+


lemma quiet_detectors:
  "detectHeadlessBrowser quietBrowser = False" "detectAutomationTools quietBrowser = False"
  "detectHeadlessBrowser (at quietBrowser t) = False" "detectAutomationTools (at quietBrowser t) = False"
  by (simp_all add: detectHeadlessBrowser_def detectAutomationTools_def quietBrowser_def at_def)

lemma headless_detectors:
  "detectHeadlessBrowser headlessBrowser = True" "detectAutomationTools headlessBrowser = True"
  "detectHeadlessBrowser (at headlessBrowser t) = True" "detectAutomationTools (at headlessBrowser t) = True"
  by (simp_all add: detectHeadlessBrowser_def detectAutomationTools_def headlessBrowser_def at_def)


lemma first_attempt:
  assumes "securityMetrics s sid = None" and "truthy (storedFingerprint s) \<or> generatedFingerprint b \<noteq> []"
  shows "riskScore (fst (validateVerificationRequest b sid ctx s)) =
           (if 1 > maxVerificationAttempts (config s) then 50 else 0) + 30 +
           (if enableAdvancedFraudDetection (config s) then performAdvancedFraudChecks b ctx m0 else 0)"
    and "tracked sid 1 (fst (currentFingerprint b s)) (snd (validateVerificationRequest b sid ctx s))"
proof -
  show "riskScore (fst (validateVerificationRequest b sid ctx s)) =
           (if 1 > maxVerificationAttempts (config s) then 50 else 0) + 30 +
           (if enableAdvancedFraudDetection (config s) then performAdvancedFraudChecks b ctx m0 else 0)"
    using assms(1) by (simp add: vvr_riskScore[where ?m0.0 = m0])
  have nonempty: "fst (currentFingerprint b s) \<noteq> []"
    using assms(2) by (auto simp add: currentFingerprint_cases truthy_def split: option.splits)
  from vvr_state(3)[of b sid ctx s] assms(1) obtain m' where
    "securityMetrics (snd (validateVerificationRequest b sid ctx s)) sid = Some m'"
    "verificationAttempts m' = 1" "deviceFingerprint m' = Some (fst (currentFingerprint b s))"
    by auto
  with nonempty show "tracked sid 1 (fst (currentFingerprint b s)) (snd (validateVerificationRequest b sid ctx s))"
    by (simp add: tracked_def vvr_state(2))
qed

lemma repeat_attempt:
  assumes "tracked sid k f s"
  shows "riskScore (fst (validateVerificationRequest b sid ctx s)) =
           (if k + 1 > maxVerificationAttempts (config s) then 50 else 0) + 30 +
           (if enableAdvancedFraudDetection (config s) then performAdvancedFraudChecks b ctx m0 else 0)"
    and "tracked sid (k + 1) f (snd (validateVerificationRequest b sid ctx s))"
proof -
  from assms obtain m where m: "securityMetrics s sid = Some m" "verificationAttempts m = k"
      "deviceFingerprint m = Some f" "storedFingerprint s = Some f" "f \<noteq> []"
    by (auto simp add: tracked_def split: option.splits)
  have fp: "fst (currentFingerprint b s) = f"
    using m(4,5) by (simp add: currentFingerprint_cases truthy_def)
  show "riskScore (fst (validateVerificationRequest b sid ctx s)) =
           (if k + 1 > maxVerificationAttempts (config s) then 50 else 0) + 30 +
           (if enableAdvancedFraudDetection (config s) then performAdvancedFraudChecks b ctx m0 else 0)"
    using m fp by (simp add: vvr_riskScore[where ?m0.0 = m0])
  from vvr_state(3)[of b sid ctx s] m obtain m' where
    "securityMetrics (snd (validateVerificationRequest b sid ctx s)) sid = Some m'"
    "verificationAttempts m' = k + 1" "deviceFingerprint m' = Some f"
    by auto
  with m(5) fp show "tracked sid (k + 1) f (snd (validateVerificationRequest b sid ctx s))"
    by (simp add: tracked_def vvr_state(2))
qed

lemma validateRepeatedly_last:
  "last (fst (validateRepeatedly [b1, b2, b3, b4] sid ctx s)) =
     fst (validateVerificationRequest b4 sid ctx
       (snd (validateVerificationRequest b3 sid ctx
         (snd (validateVerificationRequest b2 sid ctx
           (snd (validateVerificationRequest b1 sid ctx s)))))))"
  by (simp add: case_prod_beta)

lemma fourth_attempt_score:
  assumes "securityMetrics s sid = None"
    and "truthy (storedFingerprint s) \<or> generatedFingerprint b1 \<noteq> []"
    and "maxVerificationAttempts (config s) = 3"
  shows "riskScore (last (fst (validateRepeatedly [b1, b2, b3, b4] sid ctx s))) =
           80 + (if enableAdvancedFraudDetection (config s) then performAdvancedFraudChecks b4 ctx m0 else 0)"
proof -
  define s1 where "s1 = snd (validateVerificationRequest b1 sid ctx s)"
  define s2 where "s2 = snd (validateVerificationRequest b2 sid ctx s1)"
  define s3 where "s3 = snd (validateVerificationRequest b3 sid ctx s2)"
  define f where "f = fst (currentFingerprint b1 s)"
  have t1: "tracked sid 1 f s1"
    unfolding s1_def f_def by (rule first_attempt(2)[OF assms(1,2)])
  have t2: "tracked sid 2 f s2"
    unfolding s2_def using repeat_attempt(2)[OF t1, of b2 ctx] by simp
  have t3: "tracked sid 3 f s3"
    unfolding s3_def using repeat_attempt(2)[OF t2, of b3 ctx] by simp
  have c: "config s3 = config s"
    by (simp add: s3_def s2_def s1_def vvr_state(1))
  have "riskScore (fst (validateVerificationRequest b4 sid ctx s3)) =
          80 + (if enableAdvancedFraudDetection (config s) then performAdvancedFraudChecks b4 ctx m0 else 0)"
    using repeat_attempt(1)[OF t3, of b4 ctx m0] assms(3) by (simp add: c)
  then show ?thesis
    unfolding validateRepeatedly_last s1_def s2_def s3_def .
qed

lemma vvr_result_of_score:
  assumes "riskScore (fst (validateVerificationRequest b sid ctx s)) = n"
  shows "fst (validateVerificationRequest b sid ctx s) =
           \<lparr>isValid = n < 70, riskScore = n,
            blockedReason = (if n < 70 then None else Some (getRiskReason n))\<rparr>"
  using assms by (subst vvr_result) (simp add: Let_def)

lemma freshService_fields:
  "securityMetrics freshService sid = None"
  "storedFingerprint freshService = Some ''eyJ1c2VyQWdlbnQiOiJNb3ppbGxhLzUu''"
  "maxVerificationAttempts (config freshService) = 3"
  "enableAdvancedFraudDetection (config freshService) = True"
  by (simp_all add: freshService_def newService_def newConfig_def initializeDeviceFingerprinting_def
        Let_def quietBrowser_def)

lemma at_fields:
  "dateNow (at b ms) = dateNow b + ms"
  "generatedFingerprint (at b ms) = generatedFingerprint b"
  by (simp_all add: at_def)

lemma fixture_fields:
  "dateNow quietBrowser = 1700000000000"
  "generatedFingerprint quietBrowser = ''eyJ1c2VyQWdlbnQiOiJNb3ppbGxhLzUu''"
  "dateNow headlessBrowser = 1700000000000"
  "generatedFingerprint headlessBrowser = ''eyJ1c2VyQWdlbnQiOiJNb3ppbGxhLzUu''"
  by (simp_all add: quietBrowser_def headlessBrowser_def)

lemma fourth_attempt_result:
  assumes "securityMetrics s sid = None"
    and "truthy (storedFingerprint s) \<or> generatedFingerprint b1 \<noteq> []"
    and "maxVerificationAttempts (config s) = 3"
    and "n = 80 + (if enableAdvancedFraudDetection (config s) then performAdvancedFraudChecks b4 ctx m0 else 0)"
  shows "last (fst (validateRepeatedly [b1, b2, b3, b4] sid ctx s)) =
           \<lparr>isValid = n < 70, riskScore = n,
            blockedReason = (if n < 70 then None else Some (getRiskReason n))\<rparr>"
  using fourth_attempt_score[OF assms(1,2,3), of b2 b3 b4 ctx m0] assms(4)
  unfolding validateRepeatedly_last by (intro vvr_result_of_score) simp

lemma burst_penalty_ignores_clock:
  "riskScore (fst (validateVerificationRequest (b\<lparr>dateNow := t\<rparr>) sid ctx s)) =
   riskScore (fst (validateVerificationRequest b sid ctx s))"
proof -
  have fp: "fst (currentFingerprint (b\<lparr>dateNow := t\<rparr>) s) = fst (currentFingerprint b s)"
    by (simp add: currentFingerprint_cases)
  have adv: "performAdvancedFraudChecks (b\<lparr>dateNow := t\<rparr>) ctx exampleMetrics =
             performAdvancedFraudChecks b ctx exampleMetrics"
    by (simp add: advanced_checks_value detectHeadlessBrowser_def detectAutomationTools_def)
  show ?thesis
    unfolding vvr_riskScore[where ?m0.0 = exampleMetrics] fp adv ..
qed

subsection \<open>The burst penalty\<close>

text \<open>
  Claim C1: the +30 burst penalty is added exactly when the previous attempt for the
  session key is less than 5 seconds old, so a first attempt with a matching fingerprint
  and no automation indicators scores 0. The scorer stores the current time in
  \<^verbatim>\<open>lastAttemptTimestamp\<close> before it compares the two, so the difference is always 0
  and the penalty is always added: the first attempt below scores 30, and so does a
  second attempt made an hour later.
\<close>

theorem first_attempt_scores_thirty:
  "fst (validateVerificationRequest quietBrowser ''session-1'' plainContext freshService) =
     \<lparr>isValid = True, riskScore = 30, blockedReason = None\<rparr> \<and>
   fst (validateVerificationRequest (at quietBrowser 3600000) ''session-1'' plainContext
          (snd (validateVerificationRequest quietBrowser ''session-1'' plainContext freshService))) =
     \<lparr>isValid = True, riskScore = 30, blockedReason = None\<rparr>"
proof -
  let ?s1 = "snd (validateVerificationRequest quietBrowser ''session-1'' plainContext freshService)"
  have pre: "truthy (storedFingerprint freshService) \<or> generatedFingerprint quietBrowser \<noteq> []"
    by (simp add: fixture_fields)
  have "riskScore (fst (validateVerificationRequest quietBrowser ''session-1'' plainContext freshService)) = 30"
    using first_attempt(1)[OF freshService_fields(1) pre, of "''session-1''" plainContext exampleMetrics]
    by (simp add: freshService_fields advanced_checks_value quiet_detectors)
  from vvr_result_of_score[OF this]
  have one: "fst (validateVerificationRequest quietBrowser ''session-1'' plainContext freshService) =
     \<lparr>isValid = True, riskScore = 30, blockedReason = None\<rparr>"
    by simp
  have t: "tracked ''session-1'' 1 (fst (currentFingerprint quietBrowser freshService)) ?s1"
    by (rule first_attempt(2)[OF freshService_fields(1) pre])
  have c: "config ?s1 = config freshService"
    by (simp add: vvr_state(1))
  have "riskScore (fst (validateVerificationRequest (at quietBrowser 3600000) ''session-1'' plainContext ?s1)) = 30"
    using repeat_attempt(1)[OF t, of "at quietBrowser 3600000" plainContext exampleMetrics]
    by (simp add: c freshService_fields advanced_checks_value quiet_detectors)
  from vvr_result_of_score[OF this]
  have two: "fst (validateVerificationRequest (at quietBrowser 3600000) ''session-1'' plainContext ?s1) =
     \<lparr>isValid = True, riskScore = 30, blockedReason = None\<rparr>"
    by simp
  from one two show ?thesis by simp
qed

subsection \<open>Four rapid attempts\<close>

text \<open>
  The fourth of four attempts made within three seconds by a browser without automation
  indicators does not score 100 and is not reported as high fraud risk.
\<close>

theorem fourth_rapid_attempt_not_100:
  "riskScore (last (fst (validateRepeatedly
      [quietBrowser, at quietBrowser 1000, at quietBrowser 2000, at quietBrowser 3000]
      ''session-1'' plainContext freshService))) \<noteq> 100 \<and>
   blockedReason (last (fst (validateRepeatedly
      [quietBrowser, at quietBrowser 1000, at quietBrowser 2000, at quietBrowser 3000]
      ''session-1'' plainContext freshService))) \<noteq> Some ''High fraud risk detected''"
  by (subst (1 2) fourth_attempt_result[where n = 80 and ?m0.0 = exampleMetrics])
     (simp_all add: freshService_fields fixture_fields advanced_checks_value quiet_detectors getRiskReason_def)

text \<open>
  Claim C2, amended: when the same session key is submitted four times within 5 seconds
  from a browser whose fingerprint stays in session storage, and the fourth call sees no
  automation indicators, the fourth call scores 50 (over the maximum of 3 attempts)
  + 30 (burst) = 80, the decision is to block, and the blocked reason is
  "Suspicious activity patterns". The fingerprint is the same in all four calls because
  the first call leaves it in session storage and the later calls read it from there.
\<close>

theorem fourth_rapid_attempt:
  assumes "securityMetrics s sid = None"
    and "maxVerificationAttempts (config s) = 3"
    and "generatedFingerprint b1 \<noteq> []"
    and "dateNow b1 \<le> dateNow b2" and "dateNow b2 \<le> dateNow b3" and "dateNow b3 \<le> dateNow b4"
    and "dateNow b4 - dateNow b1 < 5000"
    and "\<not> detectHeadlessBrowser b4" and "\<not> detectAutomationTools b4"
  shows "last (fst (validateRepeatedly [b1, b2, b3, b4] sid ctx s)) =
           \<lparr>isValid = False, riskScore = 80, blockedReason = Some ''Suspicious activity patterns''\<rparr>"
  by (subst fourth_attempt_result[where n = 80 and ?m0.0 = exampleMetrics])
     (use assms in \<open>simp_all add: advanced_checks_value getRiskReason_def\<close>)

theorem fourth_rapid_attempt_witness:
  "securityMetrics freshService ''session-1'' = None \<and>
   maxVerificationAttempts (config freshService) = 3 \<and>
   generatedFingerprint quietBrowser \<noteq> [] \<and>
   dateNow quietBrowser \<le> dateNow (at quietBrowser 1000) \<and>
   dateNow (at quietBrowser 1000) \<le> dateNow (at quietBrowser 2000) \<and>
   dateNow (at quietBrowser 2000) \<le> dateNow (at quietBrowser 3000) \<and>
   dateNow (at quietBrowser 3000) - dateNow quietBrowser < 5000 \<and>
   \<not> detectHeadlessBrowser (at quietBrowser 3000) \<and> \<not> detectAutomationTools (at quietBrowser 3000) \<and>
   last (fst (validateRepeatedly
      [quietBrowser, at quietBrowser 1000, at quietBrowser 2000, at quietBrowser 3000]
      ''session-1'' plainContext freshService)) =
     \<lparr>isValid = False, riskScore = 80, blockedReason = Some ''Suspicious activity patterns''\<rparr>"
  using fourth_rapid_attempt[of freshService "''session-1''" quietBrowser "at quietBrowser 1000"
      "at quietBrowser 2000" "at quietBrowser 3000" plainContext]
  by (simp add: freshService_fields fixture_fields at_fields quiet_detectors)

subsection \<open>Range of the score\<close>

text \<open>
  Four rapid attempts from a headless, automated browser: the fourth scores
  50 + 30 + 100 = 180, which is above 100.
\<close>

theorem risk_score_exceeds_100:
  "\<not> riskScore (last (fst (validateRepeatedly
      [headlessBrowser, at headlessBrowser 1000, at headlessBrowser 2000, at headlessBrowser 3000]
      ''session-1'' plainContext freshService))) \<le> 100"
  by (subst fourth_attempt_result[where n = 180 and ?m0.0 = exampleMetrics])
     (simp_all add: freshService_fields fixture_fields advanced_checks_value headless_detectors)

text \<open>
  Claim C4, amended: the aggregate risk score is not clamped. It lies in the interval
  [0, 220]; only the contribution of the advanced fraud checks is clamped to [0, 100].
\<close>

theorem risk_score_range:
  "0 \<le> riskScore (fst (validateVerificationRequest b sid ctx s)) \<and>
   riskScore (fst (validateVerificationRequest b sid ctx s)) \<le> 220 \<and>
   0 \<le> performAdvancedFraudChecks b ctx m \<and> performAdvancedFraudChecks b ctx m \<le> 100"
  using advanced_checks_range[of b ctx m]
  by (simp add: vvr_riskScore[where ?m0.0 = m])

theorem risk_score_range_witness:
  "0 \<le> riskScore (fst (validateVerificationRequest headlessBrowser ''session-1'' plainContext freshService)) \<and>
   riskScore (fst (validateVerificationRequest headlessBrowser ''session-1'' plainContext freshService)) \<le> 220 \<and>
   0 \<le> performAdvancedFraudChecks headlessBrowser plainContext exampleMetrics \<and>
   performAdvancedFraudChecks headlessBrowser plainContext exampleMetrics \<le> 100"
  using risk_score_range[of headlessBrowser "''session-1''" plainContext freshService exampleMetrics]
  by simp

subsection \<open>Weights of the advanced fraud checks\<close>

text \<open>A headless indicator alone raises the result of the advanced checks by 60, not by 50.\<close>

theorem headless_contribution_not_50:
  "performAdvancedFraudChecks (quietBrowser\<lparr>navWebdriver := True\<rparr>) plainContext exampleMetrics -
   performAdvancedFraudChecks quietBrowser plainContext exampleMetrics \<noteq> 50"
  by (simp add: advanced_checks_value detectHeadlessBrowser_def detectAutomationTools_def quietBrowser_def)

text \<open>
  Claim C5, amended: in the advanced fraud checks a headless-browser indicator
  contributes +60 and an automation-tooling signature +50; the geo-mismatch (+20) and
  VPN (+25) detectors are placeholders that never fire; the total of the category is
  capped at 100.
\<close>

theorem advanced_checks_weights:
  "performAdvancedFraudChecks b ctx m =
     min 100 ((if detectHeadlessBrowser b then 60 else 0) + (if detectAutomationTools b then 50 else 0)) \<and>
   performAdvancedFraudChecks b ctx m \<le> 100"
  by (simp add: advanced_checks_value)

theorem advanced_checks_weights_witness:
  "performAdvancedFraudChecks headlessBrowser plainContext exampleMetrics =
     min 100 ((if detectHeadlessBrowser headlessBrowser then 60 else 0) +
              (if detectAutomationTools headlessBrowser then 50 else 0)) \<and>
   performAdvancedFraudChecks headlessBrowser plainContext exampleMetrics \<le> 100 \<and>
   performAdvancedFraudChecks headlessBrowser plainContext exampleMetrics = 100"
  using advanced_checks_weights[of headlessBrowser plainContext exampleMetrics]
  by (simp add: headless_detectors)

subsection \<open>Determinism\<close>

text \<open>
  Claim C8: the risk scorer is deterministic. Two runs that read the same browser
  signals and start from states that agree on the recorded metrics of the session key,
  on the stored fingerprint and on the configuration return the same score, the same
  decision and the same blocked reason, whatever else differs in the two states
  (metrics of other sessions, the incident list) or in the request context.
\<close>

theorem risk_score_deterministic:
  assumes "securityMetrics s1 sid = securityMetrics s2 sid"
    and "storedFingerprint s1 = storedFingerprint s2"
    and "config s1 = config s2"
    and "ctxCountryCode c1 = ctxCountryCode c2"
  shows "fst (validateVerificationRequest b sid c1 s1) = fst (validateVerificationRequest b sid c2 s2)"
proof -
  have fp: "fst (currentFingerprint b s1) = fst (currentFingerprint b s2)"
    using assms(2) by (simp add: currentFingerprint_cases)
  have "riskScore (fst (validateVerificationRequest b sid c1 s1)) =
        riskScore (fst (validateVerificationRequest b sid c2 s2))"
    unfolding vvr_riskScore[where ?m0.0 = exampleMetrics] assms(1) assms(3) fp
      adv_indep[of b c1 exampleMetrics c2 exampleMetrics] ..
  then show ?thesis
    by (rule trans[OF vvr_result_of_score vvr_result_of_score[OF refl, symmetric]])
qed

theorem risk_score_deterministic_witness:
  "securityMetrics freshService ''session-1'' =
     securityMetrics (freshService\<lparr>securityMetrics := [''session-2'' \<mapsto> exampleMetrics],
                                   storedIncidents := [], deviceFingerprintingActive := False\<rparr>) ''session-1'' \<and>
   fst (validateVerificationRequest quietBrowser ''session-1'' plainContext freshService) =
   fst (validateVerificationRequest quietBrowser ''session-1'' (plainContext\<lparr>ctxType := ''id_number''\<rparr>)
          (freshService\<lparr>securityMetrics := [''session-2'' \<mapsto> exampleMetrics],
                         storedIncidents := [], deviceFingerprintingActive := False\<rparr>))"
  using risk_score_deterministic[of freshService "''session-1''"
      "freshService\<lparr>securityMetrics := [''session-2'' \<mapsto> exampleMetrics],
                     storedIncidents := [], deviceFingerprintingActive := False\<rparr>"
      plainContext "plainContext\<lparr>ctxType := ''id_number''\<rparr>" quietBrowser]
  by (simp add: freshService_fields)

section \<open>Properties of the session creation endpoint\<close>

lemma validateSudanWilaya_invalid:
  assumes "truthy code" and "selectError env = None"
    and "\<forall>r \<in> set (sudan_wilayas s). Some (wilaya_code r) = code \<longrightarrow> wilaya_is_active r \<noteq> 1"
  shows "validateSudanWilaya env s code = Inr False"
  using assms by (auto simp add: validateSudanWilaya_def find_None_iff)

lemma validateSaudiFacility_invalid:
  assumes "truthy code" and "selectError env = None"
    and "\<forall>r \<in> set (healthcare_facilities s). Some (facility_code r) = code \<longrightarrow>
           facility_is_active r \<noteq> 1 \<or> nphies_certified r \<noteq> 1"
  shows "validateSaudiFacility env s code = Inr False"
  using assms by (auto simp add: validateSaudiFacility_def find_None_iff)

lemma storeSession_sessions:
  "SESSIONS (snd (storeSession env body oid ss s)) k \<noteq> SESSIONS s k \<Longrightarrow>
     k = stripe_id ss \<and> insertError env = None \<and>
     (\<exists>row. verification_sessions (snd (storeSession env body oid ss s)) = verification_sessions s @ [row] \<and>
            stripe_session_id row = k \<and> session_oid row = oid) \<and>
     (\<exists>v. SESSIONS (snd (storeSession env body oid ss s)) k = Some v \<and> kv_session_oid v = oid)"
  by (auto simp add: storeSession_def insertSession_def putSession_def putNeuralContext_def
        split: option.splits if_splits sum.splits)

lemma storeSession_rows:
  "set (verification_sessions s) \<subseteq> set (verification_sessions (snd (storeSession env body oid ss s)))"
  by (auto simp add: storeSession_def insertSession_def putSession_def putNeuralContext_def
        split: option.splits if_splits sum.splits)

lemma onRequestPost_cases:
  "snd (onRequestPost env rq s) = s \<or>
   (\<exists>body. rq = Inr body \<and>
      (snd (onRequestPost env rq s) = s\<lparr>stripeRequests := stripeRequests s @ [stripeParams body (makeSessionOID env body)]\<rparr> \<or>
       (\<exists>ss. snd (onRequestPost env rq s) =
          snd (storeSession env body (makeSessionOID env body) ss
                 (s\<lparr>stripeRequests := stripeRequests s @ [stripeParams body (makeSessionOID env body)]\<rparr>)))))"
  by (auto simp add: onRequestPost_def Let_def split: sum.splits option.splits StripeOutcome.splits)

lemma timestamp_digits: "natToString 1700000000000 = ''1700000000000''"
  by (simp add: natToString.simps)

lemma makeSessionOID_example:
  "serverNow env = 1700000000000 \<Longrightarrow> BRAINSAIT_OID_ROOT env = ''1.3.6.1.4.1.61026'' \<Longrightarrow>
   country_code body = Some ''SA'' \<Longrightarrow> makeSessionOID env body = sessionOid0"
  by (simp add: makeSessionOID_def countryOid_def numberToString_def timestamp_digits sessionOid0_def)

lemma generateOID_example:
  "oidNow env = 1700000000000 \<Longrightarrow> generateOID env Verification (Some ''SA'') = sessionOid0"
  by (simp add: generateOID_def oidPrefix_def numberToString_def timestamp_digits sessionOid0_def)

lemma serverEnv_fields:
  "serverNow serverEnv0 = 1700000000000" "BRAINSAIT_OID_ROOT serverEnv0 = ''1.3.6.1.4.1.61026''"
  "serverNow serverEnv1 = 1700000000000" "BRAINSAIT_OID_ROOT serverEnv1 = ''1.3.6.1.4.1.61026''"
  "selectError serverEnv0 = None" "selectError serverEnv1 = None"
  "insertError serverEnv0 = None" "insertError serverEnv1 = None"
  "sessionsPutError serverEnv0 = None" "sessionsPutError serverEnv1 = None"
  "stripeOutcome serverEnv0 = StripeOk \<lparr>stripe_id = ''vs_1'', stripe_fields = []\<rparr>"
  "stripeOutcome serverEnv1 = StripeOk \<lparr>stripe_id = ''vs_2'', stripe_fields = []\<rparr>"
  "serverIsoNow serverEnv0 = ''2023-11-14T22:13:20.000Z''"
  by (simp_all add: serverEnv0_def serverEnv1_def)

lemma request_fields:
  "country_code (saudiRequest c) = Some ''SA''" "country_code otherRequest = Some ''SA''"
  "country_code (sudanRequest c) = Some ''SD''"
  "healthcare_context (saudiRequest c) = Some \<lparr>nphiesId = Some ''NPH-1'', facilityCode = Some c, practitionerId = None\<rparr>"
  "healthcare_context otherRequest = Some \<lparr>nphiesId = Some ''NPH-1'', facilityCode = Some ''KSA001'', practitionerId = None\<rparr>"
  "national_context (sudanRequest c) = Some \<lparr>sudanNationalId = Some ''119900112233'', ministryCode = None, wilayaCode = Some c\<rparr>"
  "req_metadata (saudiRequest c) = None" "req_metadata otherRequest = None"
  "req_type (saudiRequest c) = ''document''"
  by (simp_all add: saudiRequest_def sudanRequest_def otherRequest_def)

lemma saudi_check_passes:
  assumes "healthcare_facilities s = healthcare_facilities store0" and "selectError env = None"
    and "country_code body = Some ''SA''"
    and "healthcare_context body = Some \<lparr>nphiesId = n, facilityCode = Some ''KSA001'', practitionerId = p\<rparr>"
  shows "checkSaudi env body s = Inr None" and "checkSudan env body s = Inr None"
  using assms
  by (simp_all add: checkSaudi_def checkSudan_def validateSaudiFacility_def store0_def truthy_def)

lemma first_call_example:
  "onRequestPost serverEnv0 (Inr (saudiRequest ''KSA001'')) store0 =
     (\<lparr>resp_status = 200,
       resp_body = CreatedBody \<lparr>stripe_id = ''vs_1'', stripe_fields = []\<rparr> sessionOid0 False True\<rparr>,
      store0\<lparr>stripeRequests := [stripeParams (saudiRequest ''KSA001'') sessionOid0],
             verification_sessions :=
               [\<lparr>session_oid = sessionOid0, stripe_session_id = ''vs_1'', session_status = ''created'',
                 country_context = ''SA'',
                 session_data = \<lparr>data_type = ''document'', data_return_url = ''https://example.org/return'',
                    data_healthcare_context = healthcare_context (saudiRequest ''KSA001''),
                    data_national_context = None, data_metadata = None\<rparr>\<rparr>],
             SESSIONS := [''vs_1'' \<mapsto> \<lparr>kv_session_oid = sessionOid0, kv_created_at = ''2023-11-14T22:13:20.000Z'',
                                       kv_country_code = Some ''SA'', kv_type = ''document''\<rparr>]\<rparr>)"
proof -
  have oid: "makeSessionOID serverEnv0 (saudiRequest ''KSA001'') = sessionOid0"
    by (rule makeSessionOID_example) (simp_all add: serverEnv_fields request_fields)
  have chk: "checkSaudi serverEnv0 (saudiRequest ''KSA001'') store0 = Inr None"
      "checkSudan serverEnv0 (saudiRequest ''KSA001'') store0 = Inr None"
    by (rule saudi_check_passes; simp add: serverEnv_fields request_fields)+
  show ?thesis
    by (simp add: onRequestPost_def Let_def oid chk serverEnv_fields storeSession_def insertSession_def
          putSession_def neuralEnabled_def request_fields orElse_def)
       (simp add: store0_def saudiRequest_def)
qed

lemma duplicate_oid_rejected:
  assumes "checkSaudi env body s = Inr None" and "checkSudan env body s = Inr None"
    and "stripeOutcome env = StripeOk ss" and "insertError env = None"
    and "list_ex (\<lambda>r. session_oid r = makeSessionOID env body) (verification_sessions s)"
  shows "fst (onRequestPost env (Inr body) s) =
     \<lparr>resp_status = 500,
      resp_body = InternalErrorBody ''UNIQUE constraint failed: verification_sessions.session_oid''\<rparr>"
  using assms
  by (simp add: onRequestPost_def Let_def storeSession_def insertSession_def internalServerError_def)

subsection \<open>Regional codes\<close>

text \<open>
  Claim C6: a create-session request with country code SD whose national context
  supplies a wilaya code that the \<^verbatim>\<open>sudan_wilayas\<close> table does not list as active is
  answered with status 400 and leaves the state as it was: no call to the identity
  provider is made and nothing is written to the database or to the caches. The same
  holds for country code SA and a facility code that is not both active and certified.
  A supplied code is a non-empty string (the handler treats a missing or empty code as
  valid), and the table lookup itself completes.
\<close>

theorem invalid_regional_code_rejected:
  "(country_code sdBody = Some ''SD'' \<and> national_context sdBody = Some nc \<and> truthy (wilayaCode nc) \<and>
    selectError env = None \<and>
    (\<forall>r \<in> set (sudan_wilayas s). Some (wilaya_code r) = wilayaCode nc \<longrightarrow> wilaya_is_active r \<noteq> 1)
    \<longrightarrow> onRequestPost env (Inr sdBody) s =
          (\<lparr>resp_status = 400, resp_body = ErrorBody ''Invalid Sudan wilaya''\<rparr>, s)) \<and>
   (country_code saBody = Some ''SA'' \<and> healthcare_context saBody = Some hc \<and> truthy (facilityCode hc) \<and>
    selectError env = None \<and>
    (\<forall>r \<in> set (healthcare_facilities s). Some (facility_code r) = facilityCode hc \<longrightarrow>
         facility_is_active r \<noteq> 1 \<or> nphies_certified r \<noteq> 1)
    \<longrightarrow> onRequestPost env (Inr saBody) s =
          (\<lparr>resp_status = 400, resp_body = ErrorBody ''Invalid Saudi healthcare facility''\<rparr>, s))"
  by (simp add: onRequestPost_def checkSaudi_def checkSudan_def badRequest_def
        validateSudanWilaya_invalid validateSaudiFacility_invalid)

theorem invalid_regional_code_rejected_witness:
  "truthy (Some ''SD99'') \<and> truthy (Some ''KSA009'') \<and> selectError serverEnv0 = None \<and>
   \<not> list_ex (\<lambda>r. wilaya_code r = ''SD99'' \<and> wilaya_is_active r = 1) (sudan_wilayas store0) \<and>
   \<not> list_ex (\<lambda>r. facility_code r = ''KSA009'' \<and> facility_is_active r = 1 \<and> nphies_certified r = 1)
        (healthcare_facilities store0) \<and>
   onRequestPost serverEnv0 (Inr (sudanRequest ''SD99'')) store0 =
     (\<lparr>resp_status = 400, resp_body = ErrorBody ''Invalid Sudan wilaya''\<rparr>, store0) \<and>
   onRequestPost serverEnv0 (Inr (saudiRequest ''KSA009'')) store0 =
     (\<lparr>resp_status = 400, resp_body = ErrorBody ''Invalid Saudi healthcare facility''\<rparr>, store0)"
proof -
  have h: "truthy (Some ''SD99'')" "truthy (Some ''KSA009'')" "selectError serverEnv0 = None"
    "\<forall>r \<in> set (sudan_wilayas store0). Some (wilaya_code r) = Some ''SD99'' \<longrightarrow> wilaya_is_active r \<noteq> 1"
    "\<forall>r \<in> set (healthcare_facilities store0). Some (facility_code r) = Some ''KSA009'' \<longrightarrow>
         facility_is_active r \<noteq> 1 \<or> nphies_certified r \<noteq> 1"
    by (simp_all add: truthy_def serverEnv_fields store0_def)
  from invalid_regional_code_rejected[where sdBody = "sudanRequest ''SD99''" and env = serverEnv0
      and s = store0 and saBody = "saudiRequest ''KSA009''"
      and nc = "\<lparr>sudanNationalId = Some ''119900112233'', ministryCode = None, wilayaCode = Some ''SD99''\<rparr>"
      and hc = "\<lparr>nphiesId = Some ''NPH-1'', facilityCode = Some ''KSA009'', practitionerId = None\<rparr>"]
    h
  show ?thesis
    by (simp add: request_fields) (simp add: store0_def)
qed

subsection \<open>Write order of the two stores\<close>

text \<open>
  Claim C9: in session creation the \<^verbatim>\<open>SESSIONS\<close> cache entry of a session is written
  only after the insert of that session into \<^verbatim>\<open>verification_sessions\<close> has succeeded.
  Two readings, both proved: the handler keeps the invariant that every cache entry has
  its row in the database, and whenever a call changes the cache entry of a key, the
  insert of that call succeeded and appended the row with that provider session id.
\<close>

theorem cache_written_after_durable_insert:
  "(cacheBacked s \<longrightarrow> cacheBacked (snd (onRequestPost env rq s))) \<and>
   (SESSIONS (snd (onRequestPost env rq s)) k \<noteq> SESSIONS s k \<longrightarrow>
      insertError env = None \<and>
      (\<exists>row. verification_sessions (snd (onRequestPost env rq s)) = verification_sessions s @ [row] \<and>
             stripe_session_id row = k))"
proof -
  let ?s' = "snd (onRequestPost env rq s)"
  have changed: "insertError env = None \<and>
      (\<exists>row v. verification_sessions ?s' = verification_sessions s @ [row] \<and>
             stripe_session_id row = k' \<and> SESSIONS ?s' k' = Some v \<and> session_oid row = kv_session_oid v)"
    if "SESSIONS ?s' k' \<noteq> SESSIONS s k'" for k'
  proof -
    from onRequestPost_cases[of env rq s] that obtain body ss where
      s': "?s' = snd (storeSession env body (makeSessionOID env body) ss
                 (s\<lparr>stripeRequests := stripeRequests s @ [stripeParams body (makeSessionOID env body)]\<rparr>))"
      by auto
    let ?s1 = "s\<lparr>stripeRequests := stripeRequests s @ [stripeParams body (makeSessionOID env body)]\<rparr>"
    have "SESSIONS (snd (storeSession env body (makeSessionOID env body) ss ?s1)) k' \<noteq> SESSIONS ?s1 k'"
      using that s' by simp
    from storeSession_sessions[OF this] show ?thesis
      unfolding s' by auto
  qed
  have rows: "set (verification_sessions s) \<subseteq> set (verification_sessions ?s')"
  proof -
    from onRequestPost_cases[of env rq s] consider
        "?s' = s"
      | body where "?s' = s\<lparr>stripeRequests := stripeRequests s @ [stripeParams body (makeSessionOID env body)]\<rparr>"
      | body ss where "?s' = snd (storeSession env body (makeSessionOID env body) ss
                 (s\<lparr>stripeRequests := stripeRequests s @ [stripeParams body (makeSessionOID env body)]\<rparr>))"
      by blast
    then show ?thesis
    proof cases
      case 1
      then show ?thesis by simp
    next
      case 2
      then show ?thesis by simp
    next
      case 3
      show ?thesis
        unfolding 3
        using storeSession_rows[of "s\<lparr>stripeRequests := stripeRequests s @ [stripeParams body (makeSessionOID env body)]\<rparr>"
            env body "makeSessionOID env body" ss]
        by simp
    qed
  qed
  have "cacheBacked ?s'" if inv: "cacheBacked s"
    unfolding cacheBacked_def
  proof (intro allI impI)
    fix k' v assume kv: "SESSIONS ?s' k' = Some v"
    show "\<exists>r\<in>set (verification_sessions ?s'). stripe_session_id r = k' \<and> session_oid r = kv_session_oid v"
    proof (cases "SESSIONS ?s' k' = SESSIONS s k'")
      case True
      with kv inv obtain r where "r \<in> set (verification_sessions s)" "stripe_session_id r = k'"
          "session_oid r = kv_session_oid v"
        by (auto simp add: cacheBacked_def)
      with rows show ?thesis by blast
    next
      case False
      from changed[OF this] kv show ?thesis by auto
    qed
  qed
  with changed[of k] show ?thesis by blast
qed

theorem cache_written_after_durable_insert_witness:
  "cacheBacked store0 \<and>
   SESSIONS (snd (onRequestPost serverEnv0 (Inr (saudiRequest ''KSA001'')) store0)) ''vs_1'' \<noteq>
     SESSIONS store0 ''vs_1'' \<and>
   cacheBacked (snd (onRequestPost serverEnv0 (Inr (saudiRequest ''KSA001'')) store0)) \<and>
   insertError serverEnv0 = None \<and>
   (\<exists>row. verification_sessions (snd (onRequestPost serverEnv0 (Inr (saudiRequest ''KSA001'')) store0)) =
            verification_sessions store0 @ [row] \<and> stripe_session_id row = ''vs_1'')"
proof -
  have a: "cacheBacked store0"
    by (simp add: cacheBacked_def store0_def)
  have b: "SESSIONS (snd (onRequestPost serverEnv0 (Inr (saudiRequest ''KSA001'')) store0)) ''vs_1'' \<noteq>
     SESSIONS store0 ''vs_1''"
    by (simp add: first_call_example) (simp add: store0_def)
  from cache_written_after_durable_insert[of store0 serverEnv0 "Inr (saudiRequest ''KSA001'')" "''vs_1''"] a b
  show ?thesis by blast
qed

section \<open>Properties of the client service\<close>

lemma client_state_frame:
  "securityService (console l st) = securityService st"
  "securityService (send r st) = securityService st"
  "sentRequests (console l st) = sentRequests st"
  "sentRequests (send r st) = sentRequests st @ [r]"
  "consoleLog (send r st) = consoleLog st"
  "consoleLog (console l st) = consoleLog st @ [l]"
  by (simp_all add: console_def send_def)

lemma validateNPHIESContext_frame:
  "securityService (validateNPHIESContext env hc st) = securityService st"
  "sentRequests (validateNPHIESContext env hc st) =
     (if truthy (nphiesEndpoint env) \<and> truthy (nphiesId hc) then sentRequests st @ [NphiesValidate hc]
      else sentRequests st)"
  by (simp_all add: validateNPHIESContext_def client_state_frame split: FetchOutcome.splits)

lemma validateSudanNIDContext_frame:
  "securityService (validateSudanNIDContext env nc st) = securityService st"
  "sentRequests (validateSudanNIDContext env nc st) =
     (if truthy (sudanNidEndpoint env) \<and> truthy (sudanNationalId nc) then sentRequests st @ [SudanNidValidate nc]
      else sentRequests st)"
  by (simp_all add: validateSudanNIDContext_def client_state_frame split: FetchOutcome.splits)

lemma regionalPreChecks_frame:
  "securityService (regionalPreChecks env opts st) = securityService st"
  "sentRequests (regionalPreChecks (env\<lparr>nphiesFetch := f1, sudanNidFetch := f2\<rparr>) opts st) =
   sentRequests (regionalPreChecks env opts st)"
  "regionalPreChecks (env\<lparr>neuralFetch := f\<rparr>) opts st = regionalPreChecks env opts st"
    apply (simp add: regionalPreChecks_def Let_def validateNPHIESContext_frame validateSudanNIDContext_frame
            split: option.splits)
   apply (simp add: regionalPreChecks_def Let_def validateNPHIESContext_frame validateSudanNIDContext_frame
            split: option.splits)
  apply (simp add: regionalPreChecks_def Let_def validateNPHIESContext_def validateSudanNIDContext_def
            split: option.splits)
  done

lemma syncWithNeuralSystem_frame:
  "securityService (syncWithNeuralSystem env d st) = securityService st"
  "sentRequests (syncWithNeuralSystem env d st) = sentRequests st @ [NeuralSync d]"
  by (simp_all add: syncWithNeuralSystem_def client_state_frame split: FetchOutcome.splits)

lemma generateOID_env:
  "generateOID (env\<lparr>neuralFetch := f\<rparr>) ty cc = generateOID env ty cc"
  "generateOID (env\<lparr>nphiesFetch := f1, sudanNidFetch := f2\<rparr>) ty cc = generateOID env ty cc"
  by (simp_all add: generateOID_def)

lemma create_result:
  "fst (createVerificationSession env opts st) =
     (let oid = generateOID env Verification (countryCode opts);
          chk = fst (validateVerificationRequest (browser env) oid
                  \<lparr>ctxType = opt_type opts, ctxCountryCode = countryCode opts,
                   ctxHealthcareContext = healthcareContext opts,
                   ctxNationalIdContext = nationalIdContext opts\<rparr> (securityService st))
      in if \<not> isValid chk
         then Inl (''Security validation failed: '' @
                   (case blockedReason chk of None \<Rightarrow> ''undefined'' | Some r \<Rightarrow> r))
         else case apiFetch env of
                ApiRejected e \<Rightarrow> Inl e
              | ApiResponded ok statusText json \<Rightarrow>
                  if \<not> ok then Inl (''Failed to create verification session: '' @ statusText)
                  else (case json of Inl e \<Rightarrow> Inl e | Inr session \<Rightarrow> Inr (AList.update ''oid'' oid session)))"
  by (simp add: createVerificationSession_def rethrow_def case_prod_beta Let_def
        split: ApiOutcome.splits sum.splits)

lemma create_security:
  "securityService (snd (createVerificationSession env opts st)) =
     snd (validateVerificationRequest (browser env) (generateOID env Verification (countryCode opts))
            \<lparr>ctxType = opt_type opts, ctxCountryCode = countryCode opts,
             ctxHealthcareContext = healthcareContext opts,
             ctxNationalIdContext = nationalIdContext opts\<rparr> (securityService st))"
  by (simp add: createVerificationSession_def rethrow_def case_prod_beta Let_def client_state_frame
        regionalPreChecks_frame syncWithNeuralSystem_frame
        split: ApiOutcome.splits sum.splits)

lemma create_sent:
  "sentRequests (snd (createVerificationSession env opts st)) =
     (let oid = generateOID env Verification (countryCode opts);
          chk = fst (validateVerificationRequest (browser env) oid
                  \<lparr>ctxType = opt_type opts, ctxCountryCode = countryCode opts,
                   ctxHealthcareContext = healthcareContext opts,
                   ctxNationalIdContext = nationalIdContext opts\<rparr> (securityService st));
          st1 = st\<lparr>securityService := snd (validateVerificationRequest (browser env) oid
                  \<lparr>ctxType = opt_type opts, ctxCountryCode = countryCode opts,
                   ctxHealthcareContext = healthcareContext opts,
                   ctxNationalIdContext = nationalIdContext opts\<rparr> (securityService st))\<rparr>
      in if \<not> isValid chk then sentRequests st
         else sentRequests (regionalPreChecks env opts st1) @ [CreateSession oid opts] @
              (case apiFetch env of
                 ApiResponded True statusText (Inr session) \<Rightarrow>
                   if truthy (neuralSyncEndpoint env)
                   then [NeuralSync \<lparr>sync_sessionId = map_of session ''id'', sync_oid = oid,
                                     sync_type = ''verification_created'',
                                     sync_countryCode = countryCode opts,
                                     sync_timestamp = clientIsoNow env\<rparr>]
                   else []
               | _ \<Rightarrow> []))"
  by (simp add: createVerificationSession_def rethrow_def case_prod_beta Let_def client_state_frame
        syncWithNeuralSystem_frame
        split: ApiOutcome.splits sum.splits bool.splits)

lemma fresh_first_result:
  "fst (validateVerificationRequest quietBrowser sid ctx freshService) =
     \<lparr>isValid = True, riskScore = 30, blockedReason = None\<rparr>"
proof -
  have pre: "truthy (storedFingerprint freshService) \<or> generatedFingerprint quietBrowser \<noteq> []"
    by (simp add: fixture_fields)
  have "riskScore (fst (validateVerificationRequest quietBrowser sid ctx freshService)) = 30"
    using first_attempt(1)[OF freshService_fields(1) pre, of sid ctx exampleMetrics]
    by (simp add: freshService_fields advanced_checks_value quiet_detectors)
  from vvr_result_of_score[OF this] show ?thesis by simp
qed

lemma client_fields:
  "browser clientEnv0 = quietBrowser" "oidNow clientEnv0 = 1700000000000"
  "apiFetch clientEnv0 = ApiResponded True ''OK'' (Inr [(''id'', ''vs_1'')])"
  "securityService client0 = freshService" "countryCode saudiOptions = Some ''SA''"
  by (simp_all add: clientEnv0_def client0_def saudiOptions_def)

lemma client_example:
  assumes "browser env = quietBrowser" and "oidNow env = 1700000000000"
    and "apiFetch env = ApiResponded True ''OK'' (Inr [(''id'', ''vs_1'')])"
  shows "fst (createVerificationSession env saudiOptions client0) =
           Inr [(''id'', ''vs_1''), (''oid'', ''1.3.6.1.4.1.61026.1.682.1700000000000'')]"
  using assms
  by (simp add: create_result Let_def client_fields fresh_first_result generateOID_example sessionOid0_def)

subsection \<open>Session identifiers\<close>

text \<open>
  Claim C7: any two distinct create-session calls get different session OIDs. The OID
  is the root, the country number and the millisecond clock reading, so two different
  requests for the same country handled in the same millisecond get the same OID. The
  endpoint then answers the first with 200 and the second, whose provider session has
  already been created, with 500, because \<^verbatim>\<open>session_oid\<close> is declared \<^verbatim>\<open>UNIQUE\<close>.
  The client's \<^verbatim>\<open>generateOID\<close> repeats in the same way.
\<close>

theorem same_millisecond_same_oid:
  "saudiRequest ''KSA001'' \<noteq> otherRequest \<and>
   makeSessionOID serverEnv0 (saudiRequest ''KSA001'') = ''1.3.6.1.4.1.61026.1.682.1700000000000'' \<and>
   makeSessionOID serverEnv1 otherRequest = ''1.3.6.1.4.1.61026.1.682.1700000000000'' \<and>
   fst (onRequestPost serverEnv0 (Inr (saudiRequest ''KSA001'')) store0) =
     \<lparr>resp_status = 200,
      resp_body = CreatedBody \<lparr>stripe_id = ''vs_1'', stripe_fields = []\<rparr>
                    ''1.3.6.1.4.1.61026.1.682.1700000000000'' False True\<rparr> \<and>
   fst (onRequestPost serverEnv1 (Inr otherRequest)
          (snd (onRequestPost serverEnv0 (Inr (saudiRequest ''KSA001'')) store0))) =
     \<lparr>resp_status = 500,
      resp_body = InternalErrorBody ''UNIQUE constraint failed: verification_sessions.session_oid''\<rparr> \<and>
   generateOID clientEnv0 Verification (Some ''SA'') = ''1.3.6.1.4.1.61026.1.682.1700000000000'' \<and>
   generateOID (clientEnv0\<lparr>browser := headlessBrowser\<rparr>) Verification (Some ''SA'') =
     ''1.3.6.1.4.1.61026.1.682.1700000000000''"
proof -
  have distinct: "saudiRequest ''KSA001'' \<noteq> otherRequest"
  proof
    assume "saudiRequest ''KSA001'' = otherRequest"
    then have "return_url (saudiRequest ''KSA001'') = return_url otherRequest" by simp
    then show False by (simp add: saudiRequest_def otherRequest_def)
  qed
  have oid0: "makeSessionOID serverEnv0 (saudiRequest ''KSA001'') = sessionOid0"
    by (rule makeSessionOID_example) (simp_all add: serverEnv_fields request_fields)
  have oid1: "makeSessionOID serverEnv1 otherRequest = sessionOid0"
    by (rule makeSessionOID_example) (simp_all add: serverEnv_fields request_fields)
  let ?s1 = "snd (onRequestPost serverEnv0 (Inr (saudiRequest ''KSA001'')) store0)"
  have chk: "checkSaudi serverEnv1 otherRequest ?s1 = Inr None"
      "checkSudan serverEnv1 otherRequest ?s1 = Inr None"
    by (rule saudi_check_passes; simp add: first_call_example serverEnv_fields request_fields)+
  have second: "fst (onRequestPost serverEnv1 (Inr otherRequest) ?s1) =
     \<lparr>resp_status = 500,
      resp_body = InternalErrorBody ''UNIQUE constraint failed: verification_sessions.session_oid''\<rparr>"
    by (rule duplicate_oid_rejected[OF chk])
       (simp_all add: serverEnv_fields oid1 first_call_example)
  have c0: "generateOID clientEnv0 Verification (Some ''SA'') = sessionOid0"
    by (rule generateOID_example) (simp add: client_fields)
  have c1: "generateOID (clientEnv0\<lparr>browser := headlessBrowser\<rparr>) Verification (Some ''SA'') = sessionOid0"
    by (rule generateOID_example) (simp add: client_fields)
  show ?thesis
    using distinct oid0 oid1 second c0 c1 by (simp add: first_call_example sessionOid0_def)
qed

subsection \<open>Neural sync\<close>

text \<open>
  Claim C10: a failed neural sync call does not fail session creation. With a rejected
  sync call \<^verbatim>\<open>createVerificationSession\<close> returns what it returns with a successful
  one, leaves the same security state and has sent the same requests; when the security
  check passes and the endpoint answers with a session, the result is that session with
  its OID added.
\<close>

theorem neural_sync_failure_harmless:
  "fst (createVerificationSession (cenv\<lparr>neuralFetch := Rejected e\<rparr>) opts st) =
   fst (createVerificationSession (cenv\<lparr>neuralFetch := Responded True ''OK''\<rparr>) opts st) \<and>
   securityService (snd (createVerificationSession (cenv\<lparr>neuralFetch := Rejected e\<rparr>) opts st)) =
   securityService (snd (createVerificationSession (cenv\<lparr>neuralFetch := Responded True ''OK''\<rparr>) opts st)) \<and>
   sentRequests (snd (createVerificationSession (cenv\<lparr>neuralFetch := Rejected e\<rparr>) opts st)) =
   sentRequests (snd (createVerificationSession (cenv\<lparr>neuralFetch := Responded True ''OK''\<rparr>) opts st)) \<and>
   (isValid (fst (validateVerificationRequest (browser cenv)
                (generateOID cenv Verification (countryCode opts))
                \<lparr>ctxType = opt_type opts, ctxCountryCode = countryCode opts,
                 ctxHealthcareContext = healthcareContext opts,
                 ctxNationalIdContext = nationalIdContext opts\<rparr> (securityService st))) \<and>
    apiFetch cenv = ApiResponded True statusText (Inr session)
    \<longrightarrow> fst (createVerificationSession (cenv\<lparr>neuralFetch := Rejected e\<rparr>) opts st) =
          Inr (AList.update ''oid'' (generateOID cenv Verification (countryCode opts)) session))"
  by (simp add: create_result create_security create_sent generateOID_env regionalPreChecks_frame(3) Let_def
        split: ApiOutcome.splits sum.splits bool.splits)

theorem neural_sync_failure_harmless_witness:
  "isValid (fst (validateVerificationRequest (browser clientEnv0)
                (generateOID clientEnv0 Verification (countryCode saudiOptions))
                \<lparr>ctxType = opt_type saudiOptions, ctxCountryCode = countryCode saudiOptions,
                 ctxHealthcareContext = healthcareContext saudiOptions,
                 ctxNationalIdContext = nationalIdContext saudiOptions\<rparr> (securityService client0))) \<and>
   apiFetch clientEnv0 = ApiResponded True ''OK'' (Inr [(''id'', ''vs_1'')]) \<and>
   fst (createVerificationSession (clientEnv0\<lparr>neuralFetch := Rejected ''Failed to fetch''\<rparr>) saudiOptions client0) =
     Inr [(''id'', ''vs_1''), (''oid'', ''1.3.6.1.4.1.61026.1.682.1700000000000'')]"
proof -
  have a: "isValid (fst (validateVerificationRequest (browser clientEnv0)
                (generateOID clientEnv0 Verification (countryCode saudiOptions))
                \<lparr>ctxType = opt_type saudiOptions, ctxCountryCode = countryCode saudiOptions,
                 ctxHealthcareContext = healthcareContext saudiOptions,
                 ctxNationalIdContext = nationalIdContext saudiOptions\<rparr> (securityService client0)))"
    by (simp add: client_fields fresh_first_result)
  have b: "apiFetch clientEnv0 = ApiResponded True ''OK'' (Inr [(''id'', ''vs_1'')])"
    by (simp add: client_fields)
  have c: "generateOID clientEnv0 Verification (countryCode saudiOptions) =
             ''1.3.6.1.4.1.61026.1.682.1700000000000''"
    by (simp add: client_fields generateOID_example sessionOid0_def)
  from neural_sync_failure_harmless[where cenv = clientEnv0 and e = "''Failed to fetch''"
      and opts = saudiOptions and st = client0 and statusText = "''OK''" and session = "[(''id'', ''vs_1'')]"]
    a b
  have "fst (createVerificationSession (clientEnv0\<lparr>neuralFetch := Rejected ''Failed to fetch''\<rparr>)
              saudiOptions client0) =
        Inr (AList.update ''oid'' (generateOID clientEnv0 Verification (countryCode saudiOptions))
               [(''id'', ''vs_1'')])"
    by blast
  with a b show ?thesis
    by (simp add: c)
qed

subsection \<open>Registry failures\<close>

text \<open>
  With the database unreachable the endpoint answers a Saudi request with status 500,
  and with the NPHIES registry unreachable the client creates the session all the same.
\<close>

theorem registry_failure_not_degraded:
  "fst (onRequestPost dbDown (Inr (saudiRequest ''KSA001'')) store0) =
     \<lparr>resp_status = 500, resp_body = InternalErrorBody ''D1_ERROR: Network connection lost.''\<rparr> \<and>
   fst (createVerificationSession (clientEnv0\<lparr>nphiesFetch := Rejected ''Failed to fetch''\<rparr>) saudiOptions client0) =
     Inr [(''id'', ''vs_1''), (''oid'', ''1.3.6.1.4.1.61026.1.682.1700000000000'')]"
proof -
  have "fst (onRequestPost dbDown (Inr (saudiRequest ''KSA001'')) store0) =
     \<lparr>resp_status = 500, resp_body = InternalErrorBody ''D1_ERROR: Network connection lost.''\<rparr>"
    by (simp add: onRequestPost_def Let_def checkSaudi_def validateSaudiFacility_def request_fields
          truthy_def dbDown_def serverEnv0_def internalServerError_def)
  moreover have "fst (createVerificationSession (clientEnv0\<lparr>nphiesFetch := Rejected ''Failed to fetch''\<rparr>)
                        saudiOptions client0) =
     Inr [(''id'', ''vs_1''), (''oid'', ''1.3.6.1.4.1.61026.1.682.1700000000000'')]"
    by (rule client_example) (simp_all add: client_fields)
  ultimately show ?thesis by simp
qed

text \<open>
  Claim C3, amended: when the table lookup of the endpoint throws, the handler's
  \<^verbatim>\<open>catch\<close> answers with status 500 and the error message, and the state is
  unchanged (no provider call, nothing stored). When the client's registry call is
  rejected, \<^verbatim>\<open>validateNPHIESContext\<close> and \<^verbatim>\<open>validateSudanNIDContext\<close> only add a
  console warning to what they do on success, and \<^verbatim>\<open>createVerificationSession\<close>
  returns the same result, leaves the same security state and sends the same requests as
  with a successful registry call. No \<^verbatim>\<open>registry_unavailable\<close> reason and no
  \<^verbatim>\<open>regional_validation_degraded\<close> flag exist.
\<close>

theorem registry_failure_behaviour:
  "(selectError env = Some e \<and> country_code saBody = Some ''SA'' \<and> healthcare_context saBody = Some hc \<and>
    truthy (facilityCode hc)
    \<longrightarrow> onRequestPost env (Inr saBody) s = (\<lparr>resp_status = 500, resp_body = InternalErrorBody e\<rparr>, s)) \<and>
   (selectError env = Some e \<and> country_code sdBody = Some ''SD'' \<and> national_context sdBody = Some nc \<and>
    truthy (wilayaCode nc)
    \<longrightarrow> onRequestPost env (Inr sdBody) s = (\<lparr>resp_status = 500, resp_body = InternalErrorBody e\<rparr>, s)) \<and>
   (truthy (nphiesEndpoint cenv) \<and> truthy (nphiesId hc)
    \<longrightarrow> validateNPHIESContext (cenv\<lparr>nphiesFetch := Rejected e1\<rparr>) hc st =
          console (''NPHIES validation warning: '' @ e1)
            (validateNPHIESContext (cenv\<lparr>nphiesFetch := Responded True ''OK''\<rparr>) hc st)) \<and>
   (truthy (sudanNidEndpoint cenv) \<and> truthy (sudanNationalId nc)
    \<longrightarrow> validateSudanNIDContext (cenv\<lparr>sudanNidFetch := Rejected e2\<rparr>) nc st =
          console (''Sudan NID validation warning: '' @ e2)
            (validateSudanNIDContext (cenv\<lparr>sudanNidFetch := Responded True ''OK''\<rparr>) nc st)) \<and>
   fst (createVerificationSession (cenv\<lparr>nphiesFetch := Rejected e1, sudanNidFetch := Rejected e2\<rparr>) opts st) =
   fst (createVerificationSession (cenv\<lparr>nphiesFetch := Responded True ''OK'',
                                        sudanNidFetch := Responded True ''OK''\<rparr>) opts st) \<and>
   securityService (snd (createVerificationSession
      (cenv\<lparr>nphiesFetch := Rejected e1, sudanNidFetch := Rejected e2\<rparr>) opts st)) =
   securityService (snd (createVerificationSession
      (cenv\<lparr>nphiesFetch := Responded True ''OK'', sudanNidFetch := Responded True ''OK''\<rparr>) opts st)) \<and>
   sentRequests (snd (createVerificationSession
      (cenv\<lparr>nphiesFetch := Rejected e1, sudanNidFetch := Rejected e2\<rparr>) opts st)) =
   sentRequests (snd (createVerificationSession
      (cenv\<lparr>nphiesFetch := Responded True ''OK'', sudanNidFetch := Responded True ''OK''\<rparr>) opts st))"
proof -
  have sa: "onRequestPost env (Inr saBody) s = (\<lparr>resp_status = 500, resp_body = InternalErrorBody e\<rparr>, s)"
    if "selectError env = Some e" "country_code saBody = Some ''SA''" "healthcare_context saBody = Some hc"
      "truthy (facilityCode hc)"
    using that
    by (simp add: onRequestPost_def Let_def checkSaudi_def validateSaudiFacility_def internalServerError_def)
  have sd: "onRequestPost env (Inr sdBody) s = (\<lparr>resp_status = 500, resp_body = InternalErrorBody e\<rparr>, s)"
    if "selectError env = Some e" "country_code sdBody = Some ''SD''" "national_context sdBody = Some nc"
      "truthy (wilayaCode nc)"
    using that
    by (simp add: onRequestPost_def Let_def checkSaudi_def checkSudan_def validateSudanWilaya_def
          internalServerError_def)
  have np: "validateNPHIESContext (cenv\<lparr>nphiesFetch := Rejected e1\<rparr>) hc st =
          console (''NPHIES validation warning: '' @ e1)
            (validateNPHIESContext (cenv\<lparr>nphiesFetch := Responded True ''OK''\<rparr>) hc st)"
    if "truthy (nphiesEndpoint cenv)" "truthy (nphiesId hc)"
    using that by (simp add: validateNPHIESContext_def)
  have sn: "validateSudanNIDContext (cenv\<lparr>sudanNidFetch := Rejected e2\<rparr>) nc st =
          console (''Sudan NID validation warning: '' @ e2)
            (validateSudanNIDContext (cenv\<lparr>sudanNidFetch := Responded True ''OK''\<rparr>) nc st)"
    if "truthy (sudanNidEndpoint cenv)" "truthy (sudanNationalId nc)"
    using that by (simp add: validateSudanNIDContext_def)
  have r: "fst (createVerificationSession (cenv\<lparr>nphiesFetch := f1, sudanNidFetch := f2\<rparr>) opts st) =
           fst (createVerificationSession cenv opts st)" for f1 f2
    by (simp add: create_result generateOID_env Let_def)
  have sec: "securityService (snd (createVerificationSession (cenv\<lparr>nphiesFetch := f1, sudanNidFetch := f2\<rparr>) opts st)) =
           securityService (snd (createVerificationSession cenv opts st))" for f1 f2
    by (simp add: create_security generateOID_env)
  have sent: "sentRequests (snd (createVerificationSession (cenv\<lparr>nphiesFetch := f1, sudanNidFetch := f2\<rparr>) opts st)) =
           sentRequests (snd (createVerificationSession cenv opts st))" for f1 f2
    by (simp add: create_sent generateOID_env regionalPreChecks_frame(2) Let_def
          split: ApiOutcome.splits sum.splits bool.splits)
  show ?thesis
    using sa sd np sn by (simp add: r sec sent)
qed

theorem registry_failure_behaviour_witness:
  "selectError dbDown = Some ''D1_ERROR: Network connection lost.'' \<and>
   country_code (saudiRequest ''KSA001'') = Some ''SA'' \<and>
   healthcare_context (saudiRequest ''KSA001'') = Some hc0 \<and> truthy (facilityCode hc0) \<and>
   country_code (sudanRequest ''SD01'') = Some ''SD'' \<and>
   national_context (sudanRequest ''SD01'') = Some nc0 \<and> truthy (wilayaCode nc0) \<and>
   truthy (nphiesEndpoint clientEnv0) \<and> truthy (nphiesId hc0) \<and>
   truthy (sudanNidEndpoint clientEnv0) \<and> truthy (sudanNationalId nc0) \<and>
   onRequestPost dbDown (Inr (saudiRequest ''KSA001'')) store0 =
     (\<lparr>resp_status = 500, resp_body = InternalErrorBody ''D1_ERROR: Network connection lost.''\<rparr>, store0) \<and>
   onRequestPost dbDown (Inr (sudanRequest ''SD01'')) store0 =
     (\<lparr>resp_status = 500, resp_body = InternalErrorBody ''D1_ERROR: Network connection lost.''\<rparr>, store0) \<and>
   validateNPHIESContext (clientEnv0\<lparr>nphiesFetch := Rejected ''Failed to fetch''\<rparr>) hc0 client0 =
     console (''NPHIES validation warning: '' @ ''Failed to fetch'')
       (validateNPHIESContext (clientEnv0\<lparr>nphiesFetch := Responded True ''OK''\<rparr>) hc0 client0) \<and>
   validateSudanNIDContext (clientEnv0\<lparr>sudanNidFetch := Rejected ''Failed to fetch''\<rparr>) nc0 client0 =
     console (''Sudan NID validation warning: '' @ ''Failed to fetch'')
       (validateSudanNIDContext (clientEnv0\<lparr>sudanNidFetch := Responded True ''OK''\<rparr>) nc0 client0)"
proof -
  have h: "selectError dbDown = Some ''D1_ERROR: Network connection lost.''"
    "country_code (saudiRequest ''KSA001'') = Some ''SA''"
    "healthcare_context (saudiRequest ''KSA001'') = Some hc0" "truthy (facilityCode hc0)"
    "country_code (sudanRequest ''SD01'') = Some ''SD''"
    "national_context (sudanRequest ''SD01'') = Some nc0" "truthy (wilayaCode nc0)"
    "truthy (nphiesEndpoint clientEnv0)" "truthy (nphiesId hc0)"
    "truthy (sudanNidEndpoint clientEnv0)" "truthy (sudanNationalId nc0)"
    by (simp_all add: dbDown_def serverEnv0_def request_fields hc0_def nc0_def truthy_def clientEnv0_def)
  from registry_failure_behaviour[where env = dbDown and e = "''D1_ERROR: Network connection lost.''"
      and saBody = "saudiRequest ''KSA001''" and hc = hc0 and sdBody = "sudanRequest ''SD01''"
      and nc = nc0 and s = store0 and cenv = clientEnv0 and ?e1.0 = "''Failed to fetch''"
      and ?e2.0 = "''Failed to fetch''" and st = client0 and opts = saudiOptions] h
  show ?thesis by blast
qed

end
